theory Spec2Isabelle
  imports Complex_Main "HOL-Library.Word" "HOL-Library.Product_Lexorder" "HOL-Library.Option_ord"
begin

section \<open>Rule model (utils/rule.py)\<close>

text \<open>
  The value of a condition is \<open>str | int | float\<close>. The storage layer only asks whether
  it is an \<open>int\<close>/\<open>float\<close> instance and otherwise calls \<open>str()\<close> on it, so any other
  object is carried as the text that \<open>str()\<close> gives for it. \<open>NoneV\<close> is Python's \<open>None\<close>,
  which a fetched row gives when both value columns are null.
\<close>

datatype cond_value = StrV string | IntV int | FloatV real | NoneV | ObjV string

text \<open>A parsed condition is the tuple \<open>(column, (operator, value))\<close>.\<close>

type_synonym condition = "string \<times> (string \<times> cond_value)"

text \<open>\<open>Rule.target\<close> is an \<open>np.int64\<close>: a 64-bit machine integer, read as signed with \<open>sint\<close>.\<close>

record Rule =
  columns :: "string list"
  conditions :: "condition list \<times> condition list"
  target :: "64 word"

text \<open>\<open>Rule.__len__\<close>\<close>

definition rule_len :: "Rule \<Rightarrow> nat" where
  "rule_len r = length (fst (conditions r)) + length (snd (conditions r))"

text \<open>\<open>Rule._cond_key_set\<close>: \<open>frozenset((col, op) for col, (op, _) in conds)\<close>\<close>

definition cond_key_set :: "condition list \<Rightarrow> (string \<times> string) set" where
  "cond_key_set conds = set (map (\<lambda>(col, (op, _)). (col, op)) conds)"

type_synonym signature = "(string \<times> string) set \<times> (string \<times> string) set \<times> 64 word"

definition cond_signature :: "Rule \<Rightarrow> signature" where
  "cond_signature r =
     (cond_key_set (fst (conditions r)), cond_key_set (snd (conditions r)), target r)"

text \<open>
  \<open>Rule.__eq__\<close> takes any object and first tests \<open>isinstance(other, Rule)\<close>.
\<close>

datatype py_object = RuleObj Rule | NotARule

fun rule_eq :: "Rule \<Rightarrow> py_object \<Rightarrow> bool" where
  "rule_eq r NotARule = False"
| "rule_eq r (RuleObj other) = (cond_signature r = cond_signature other)"

text \<open>
  \<open>Rule.__hash__\<close> is \<open>hash(self.cond_signature())\<close>; Python's built-in \<open>hash\<close> on the
  signature tuple is a parameter.
\<close>

definition rule_hash :: "(signature \<Rightarrow> int) \<Rightarrow> Rule \<Rightarrow> int" where
  "rule_hash py_hash r = py_hash (cond_signature r)"

definition is_subset_of :: "Rule \<Rightarrow> Rule \<Rightarrow> bool" where
  "is_subset_of r other =
     (if target r \<noteq> target other then False
      else (case cond_signature r of (user_self, other_self, _) \<Rightarrow>
            (case cond_signature other of (user_other, other_other, _) \<Rightarrow>
               user_self \<subseteq> user_other \<and> other_self \<subseteq> other_other)))"

definition is_more_specific_than :: "Rule \<Rightarrow> Rule \<Rightarrow> bool" where
  "is_more_specific_than r other =
     (if \<not> is_subset_of r other then False
      else length (fst (conditions r)) + length (snd (conditions r))
             > length (fst (conditions other)) + length (snd (conditions other)))"

section \<open>Storage schema and faults (data/database.py)\<close>

text \<open>
  Exceptions are values. \<open>DatabaseError msg cause\<close> is
  \<open>raise DatabaseError(msg) from cause\<close>; the other constructors are the faults of the
  driver and of Python that the storage code can meet.
\<close>

datatype exn =
    DatabaseError string "exn option"
  | IntegrityError string
  | OperationalError string
  | DataError string
  | PendingRollbackError string
  | OverflowError
  | PyException string

text \<open>
  Tables \<open>rules(rule_id, target_value)\<close> and \<open>rule_conditions(condition_id, rule_id,
  table_name, column_name, operator, value_text, value_numeric)\<close>. Identifiers are the
  strings of \<open>uuid.uuid4()\<close>; the code only stores them, compares them and lets the store
  order by them, so they are any linearly ordered type \<open>'i\<close>. Only the two value columns
  are nullable. The numeric column gives back the number it was given.
\<close>

record 'i rule_row =
  r_rule_id :: 'i
  r_target_value :: int

record 'i condition_row =
  rc_condition_id :: 'i
  rc_rule_id :: 'i
  rc_table_name :: string
  rc_column_name :: string
  rc_operator :: string
  rc_value_text :: "string option"
  rc_value_numeric :: "cond_value option"

record 'i database =
  rules :: "'i rule_row list"
  rule_conditions :: "'i condition_row list"

text \<open>
  The engine is the store together with the faults it is about to show: a fault set in
  \<open>connect_fault\<close> is raised by \<open>engine.connect()\<close>, one in \<open>execute_fault\<close> (the connection
  is lost) by every \<open>conn.execute\<close>, one in \<open>commit_fault\<close> by \<open>conn.commit()\<close>.
\<close>

record 'i engine =
  store :: "'i database"
  connect_fault :: "exn option"
  execute_fault :: "exn option"
  commit_fault :: "exn option"

text \<open>
  \<open>DatabaseManager.connection\<close>: the context manager around a unit of work. Every
  exception inside the \<open>try\<close> (the missing engine, \<open>connect\<close>, the body of the \<open>with\<close>
  block, the commit after it) is re-raised as \<open>DatabaseError("Connection failed") from e\<close>.
\<close>

definition connection_failed :: "exn \<Rightarrow> exn" where
  "connection_failed e = DatabaseError ''Connection failed'' (Some e)"

definition connection :: "'i engine option \<Rightarrow> ('i engine \<Rightarrow> exn + 'a) \<Rightarrow> exn + 'a" where
  "connection engine body =
     (case engine of
        None \<Rightarrow> Inl (connection_failed (DatabaseError ''Database engine not initialized'' None))
      | Some eng \<Rightarrow>
          (case connect_fault eng of
             Some e \<Rightarrow> Inl (connection_failed e)
           | None \<Rightarrow>
               (case body eng of
                  Inl e \<Rightarrow> Inl (connection_failed e)
                | Inr res \<Rightarrow>
                    (case commit_fault eng of
                       Some e \<Rightarrow> Inl (connection_failed e)
                     | None \<Rightarrow> Inr res))))"

text \<open>
  The same context manager around a body that catches the exceptions of its own
  statements: such a body returns normally on a connection whose transaction may have
  been invalidated, so it also gives the state of the transaction at its return. On an
  invalid transaction \<open>connection.commit()\<close> raises \<open>PendingRollbackError\<close>. \<open>connection\<close>
  above is the case of a body that lets every exception through, whose transaction is
  clean whenever it returns.
\<close>

datatype txn = Clean | Invalid

definition pending_rollback :: exn where
  "pending_rollback = PendingRollbackError ''invalid transaction has not been rolled back''"

definition connection_txn ::
    "'i engine option \<Rightarrow> ('i engine \<Rightarrow> exn + 'a \<times> txn) \<Rightarrow> exn + 'a" where
  "connection_txn engine body =
     (case engine of
        None \<Rightarrow> Inl (connection_failed (DatabaseError ''Database engine not initialized'' None))
      | Some eng \<Rightarrow>
          (case connect_fault eng of
             Some e \<Rightarrow> Inl (connection_failed e)
           | None \<Rightarrow>
               (case body eng of
                  Inl e \<Rightarrow> Inl (connection_failed e)
                | Inr (res, t) \<Rightarrow>
                    (case (if t = Invalid then Some pending_rollback else commit_fault eng) of
                       Some e \<Rightarrow> Inl (connection_failed e)
                     | None \<Rightarrow> Inr res))))"

section \<open>Rule codec: encode (save_rules)\<close>

text \<open>
  The value goes to \<open>value_numeric\<close> when it is an \<open>int\<close> or \<open>float\<close> instance, else its
  \<open>str()\<close> goes to \<open>value_text\<close>.
\<close>

fun value_columns :: "cond_value \<Rightarrow> string option \<times> cond_value option" where
  "value_columns (IntV i) = (None, Some (IntV i))"
| "value_columns (FloatV x) = (None, Some (FloatV x))"
| "value_columns (StrV s) = (Some s, None)"
| "value_columns NoneV = (Some ''None'', None)"
| "value_columns (ObjV s) = (Some s, None)"

definition condition_data :: "'i \<Rightarrow> 'i \<Rightarrow> string \<Rightarrow> condition \<Rightarrow> 'i condition_row" where
  "condition_data cid rid tbl c =
     (case c of (col, (op, v)) \<Rightarrow>
        \<lparr>rc_condition_id = cid, rc_rule_id = rid, rc_table_name = tbl,
         rc_column_name = col, rc_operator = op,
         rc_value_text = fst (value_columns v),
         rc_value_numeric = snd (value_columns v)\<rparr>)"

text \<open>
  The loop over the conditions of one block; \<open>uuid4 k\<close> is what the \<open>k\<close>-th call of
  \<open>uuid.uuid4()\<close> during this \<open>save_rules\<close> returns, and \<open>n\<close> counts the calls made so far.
\<close>

fun encode_block :: "(nat \<Rightarrow> 'i) \<Rightarrow> nat \<Rightarrow> 'i \<Rightarrow> string \<Rightarrow> condition list \<Rightarrow> 'i condition_row list" where
  "encode_block uuid4 n rid tbl [] = []"
| "encode_block uuid4 n rid tbl (c # cs) =
     condition_data (uuid4 n) rid tbl c # encode_block uuid4 (Suc n) rid tbl cs"

text \<open>The loop \<open>for rule in rules\<close>, returning \<open>(rules_data, conditions_data)\<close>.\<close>

fun encode_rules :: "(nat \<Rightarrow> 'i) \<Rightarrow> nat \<Rightarrow> Rule list \<Rightarrow> 'i rule_row list \<times> 'i condition_row list" where
  "encode_rules uuid4 n [] = ([], [])"
| "encode_rules uuid4 n (r # rs) =
     (let rule_id = uuid4 n;
          header = \<lparr>r_rule_id = rule_id, r_target_value = sint (target r)\<rparr>;
          ucs = encode_block uuid4 (Suc n) rule_id ''user_details'' (fst (conditions r));
          ocs = encode_block uuid4 (Suc n + length (fst (conditions r))) rule_id
                  ''anime_dataset'' (snd (conditions r));
          rest = encode_rules uuid4 (Suc n + rule_len r) rs
      in (header # fst rest, ucs @ ocs @ snd rest))"

text \<open>
  Modelled from the spec: the table definitions are not part of the sources. The spec
  makes \<open>rule_id\<close> and \<open>condition_id\<close> unique identifiers and \<open>rule_conditions.rule_id\<close> a
  foreign key; an insert that breaks one of them is an integrity fault.
\<close>

definition insert_rules :: "'i engine \<Rightarrow> 'i rule_row list \<Rightarrow> exn + 'i engine" where
  "insert_rules eng rows =
     (case execute_fault eng of
        Some e \<Rightarrow> Inl e
      | None \<Rightarrow>
          if distinct (map r_rule_id (rules (store eng) @ rows))
          then Inr (eng\<lparr>store := (store eng)\<lparr>rules := rules (store eng) @ rows\<rparr>\<rparr>)
          else Inl (IntegrityError ''rules.rule_id''))"

definition insert_conditions :: "'i engine \<Rightarrow> 'i condition_row list \<Rightarrow> exn + 'i engine" where
  "insert_conditions eng rows =
     (case execute_fault eng of
        Some e \<Rightarrow> Inl e
      | None \<Rightarrow>
          if \<not> distinct (map rc_condition_id (rule_conditions (store eng) @ rows))
          then Inl (IntegrityError ''rule_conditions.condition_id'')
          else if \<not> list_all (\<lambda>c. rc_rule_id c \<in> set (map r_rule_id (rules (store eng)))) rows
          then Inl (IntegrityError ''rule_conditions.rule_id'')
          else Inr (eng\<lparr>store := (store eng)\<lparr>rule_conditions := rule_conditions (store eng) @ rows\<rparr>\<rparr>))"

text \<open>
  \<open>save_rules\<close> with its default table \<open>rules\<close>. An exception in the body rolls back (the
  store of the caller is untouched) and is re-raised; the context manager then wraps it.
  The result is the engine after the commit.
\<close>

definition save_rules :: "'i engine option \<Rightarrow> (nat \<Rightarrow> 'i) \<Rightarrow> Rule list \<Rightarrow> exn + 'i engine" where
  "save_rules engine uuid4 rs =
     connection engine (\<lambda>conn.
       case encode_rules uuid4 0 rs of (rules_data, conditions_data) \<Rightarrow>
         (case (if rules_data \<noteq> [] then insert_rules conn rules_data else Inr conn) of
            Inl e \<Rightarrow> Inl e
          | Inr conn1 \<Rightarrow>
              (case (if conditions_data \<noteq> [] then insert_conditions conn1 conditions_data
                     else Inr conn1) of
                 Inl e \<Rightarrow> Inl e
               | Inr conn2 \<Rightarrow>
                   (case commit_fault conn2 of
                      Some e \<Rightarrow> Inl e
                    | None \<Rightarrow> Inr conn2))))"

section \<open>Rule codec: decode (get_rules_by_target_value_paginated)\<close>

text \<open>
  A row of \<open>rules r LEFT JOIN rule_conditions rc ON r.rule_id = rc.rule_id\<close>: the header
  row and, when a condition row matches, that row; without a match every \<open>rc\<close> column of
  the result is null.
\<close>

type_synonym 'i joined_row = "'i rule_row \<times> 'i condition_row option"

definition left_join :: "'i database \<Rightarrow> 'i joined_row list" where
  "left_join db =
     concat (map (\<lambda>r. case filter (\<lambda>c. rc_rule_id c = r_rule_id r) (rule_conditions db) of
                         [] \<Rightarrow> [(r, None)]
                       | cs \<Rightarrow> map (\<lambda>c. (r, Some c)) cs)
                 (rules db))"

text \<open>\<open>ORDER BY r.rule_id, rc.condition_id\<close>, ascending, nulls last.\<close>

definition order_key :: "'i joined_row \<Rightarrow> 'i \<times> bool \<times> 'i option" where
  "order_key row = (r_rule_id (fst row), snd row = None, map_option rc_condition_id (snd row))"

definition select_rows :: "('i::linorder) database \<Rightarrow> int \<Rightarrow> 'i joined_row list" where
  "select_rows db tv =
     sort_key order_key (filter (\<lambda>row. r_target_value (fst row) = tv) (left_join db))"

text \<open>The rows of the window \<open>OFFSET offset LIMIT limit\<close> for non-negative arguments.\<close>

definition page_rows :: "('i::linorder) database \<Rightarrow> int \<Rightarrow> int \<Rightarrow> int \<Rightarrow> 'i joined_row list" where
  "page_rows db tv offset limit = take (nat limit) (drop (nat offset) (select_rows db tv))"

text \<open>
  The query with its \<open>OFFSET :offset LIMIT :limit\<close>. The store rejects a negative offset
  or limit, and one that does not fit its 64-bit integer type.
\<close>

definition execute_select :: "('i::linorder) engine \<Rightarrow> int \<Rightarrow> int \<Rightarrow> int \<Rightarrow> exn + 'i joined_row list" where
  "execute_select conn tv offset limit =
     (case execute_fault conn of
        Some e \<Rightarrow> Inl e
      | None \<Rightarrow>
          if offset < 0 then Inl (DataError ''OFFSET must not be negative'')
          else if limit < 0 then Inl (DataError ''LIMIT must not be negative'')
          else if 2 ^ 63 \<le> offset \<or> 2 ^ 63 \<le> limit then Inl (DataError ''bigint out of range'')
          else Inr (page_rows (store conn) tv offset limit))"

text \<open>
  The transaction after a statement has raised: a lost connection (\<open>execute_fault\<close>)
  leaves it invalid; a statement that the store rejected leaves the connection usable,
  and the commit then ends the aborted transaction without raising.
\<close>

definition txn_after_failure :: "'i engine \<Rightarrow> txn" where
  "txn_after_failure conn = (if execute_fault conn \<noteq> None then Invalid else Clean)"

text \<open>\<open>row["column_name"]\<close> and Python's truth value of it: false for \<open>None\<close> and for \<open>""\<close>.\<close>

definition row_column_name :: "'i joined_row \<Rightarrow> string option" where
  "row_column_name row = map_option rc_column_name (snd row)"

definition truthy :: "string option \<Rightarrow> bool" where
  "truthy v = (case v of None \<Rightarrow> False | Some s \<Rightarrow> s \<noteq> [])"

text \<open>
  \<open>rules_dict\<close>: a dict keeps its keys in insertion order, so it is an association list
  with one entry per key.
\<close>

record rule_data =
  target_value :: int
  user_conditions :: "condition list"
  other_conditions :: "condition list"

type_synonym 'i rules_dict = "('i \<times> rule_data) list"

definition dict_update :: "'i \<Rightarrow> (rule_data \<Rightarrow> rule_data) \<Rightarrow> 'i rules_dict \<Rightarrow> 'i rules_dict" where
  "dict_update k f d = map (\<lambda>(k', g). if k' = k then (k', f g) else (k', g)) d"

definition row_value :: "'i condition_row \<Rightarrow> cond_value" where
  "row_value c =
     (case rc_value_numeric c of
        Some n \<Rightarrow> n
      | None \<Rightarrow> (case rc_value_text c of Some s \<Rightarrow> StrV s | None \<Rightarrow> NoneV))"

definition row_condition :: "'i condition_row \<Rightarrow> condition" where
  "row_condition c = (rc_column_name c, (rc_operator c, row_value c))"

text \<open>The body of \<open>for row in result\<close>.\<close>

definition add_row :: "'i joined_row \<Rightarrow> 'i rules_dict \<Rightarrow> 'i rules_dict" where
  "add_row row d =
     (let rule_id = r_rule_id (fst row);
          d1 = (if rule_id \<notin> set (map fst d)
                then d @ [(rule_id, \<lparr>target_value = r_target_value (fst row),
                                     user_conditions = [], other_conditions = []\<rparr>)]
                else d)
      in if truthy (row_column_name row) then
           (case snd row of
              None \<Rightarrow> d1
            | Some c \<Rightarrow>
                if rc_table_name c = ''user_details''
                then dict_update rule_id
                       (\<lambda>g. g\<lparr>user_conditions := user_conditions g @ [row_condition c]\<rparr>) d1
                else dict_update rule_id
                       (\<lambda>g. g\<lparr>other_conditions := other_conditions g @ [row_condition c]\<rparr>) d1)
         else d1)"

fun group_rows :: "'i joined_row list \<Rightarrow> 'i rules_dict \<Rightarrow> 'i rules_dict" where
  "group_rows [] d = d"
| "group_rows (row # rows) d = group_rows rows (add_row row d)"

text \<open>\<open>np.int64(v)\<close> raises \<open>OverflowError\<close> when \<open>v\<close> does not fit in 64 bits.\<close>

definition np_int64 :: "int \<Rightarrow> exn + 64 word" where
  "np_int64 v = (if - (2 ^ 63) \<le> v \<and> v < 2 ^ 63 then Inr (word_of_int v) else Inl OverflowError)"

text \<open>\<open>Rule.__init__\<close> on condition lists that already hold \<open>(col, (op, value))\<close> tuples.\<close>

definition Rule_init :: "string list \<Rightarrow> condition list \<Rightarrow> condition list \<Rightarrow> 64 word \<Rightarrow> Rule" where
  "Rule_init cols user_conds other_conds t =
     \<lparr>columns = cols, conditions = (user_conds, other_conds), target = t\<rparr>"

record 'i RuleWithID =
  rule_id :: 'i
  rule_obj :: Rule

text \<open>
  The loop \<open>for rule_id, rule_data in rules_dict.items()\<close>: a rule whose construction
  raises is logged and left out.
\<close>

fun build_rules :: "'i rules_dict \<Rightarrow> 'i RuleWithID list" where
  "build_rules [] = []"
| "build_rules ((rid, g) # rest) =
     (case np_int64 (target_value g) of
        Inl e \<Rightarrow> build_rules rest
      | Inr t \<Rightarrow>
          \<lparr>rule_id = rid, rule_obj = Rule_init [] (user_conditions g) (other_conditions g) t\<rparr>
            # build_rules rest)"

text \<open>
  The whole fetch. The inner \<open>except Exception\<close> logs the fault and returns \<open>[]\<close> from
  inside the \<open>with\<close> block, so the context manager goes on to its commit.
\<close>

definition get_rules_by_target_value_paginated ::
    "('i::linorder) engine option \<Rightarrow> int \<Rightarrow> int \<Rightarrow> int \<Rightarrow> exn + 'i RuleWithID list" where
  "get_rules_by_target_value_paginated engine tv offset limit =
     connection_txn engine (\<lambda>conn.
       case execute_select conn tv offset limit of
         Inl e \<Rightarrow> Inr ([], txn_after_failure conn)
       | Inr result \<Rightarrow> Inr (build_rules (group_rows result []), Clean))"

section \<open>Tabular bulk loader (copy_from_buffer)\<close>

text \<open>\<open>sep.join(items)\<close>\<close>

fun join :: "string \<Rightarrow> string list \<Rightarrow> string" where
  "join sep [] = []"
| "join sep [x] = x"
| "join sep (x # y # ys) = x @ sep @ join sep (y # ys)"

definition get_conflict_columns :: "string \<Rightarrow> string list" where
  "get_conflict_columns table =
     (if table = ''user_score'' then [''user_id'', ''anime_id'']
      else if table = ''anime_dataset'' then [''anime_id'']
      else if table = ''user_details'' then [''mal_id'']
      else [])"

text \<open>
  A line break of the triple-quoted template followed by the indentation of the next line.
\<close>

definition nl :: "nat \<Rightarrow> string" where
  "nl n = CHR 0x0A # replicate n (CHR '' '')"

text \<open>
  \<open>_construct_sql\<close>. \<open>update_clause or ...\<close> takes the default when the argument is
  \<open>None\<close> or the empty string.
\<close>

definition construct_sql ::
    "string \<Rightarrow> string list \<Rightarrow> string list \<Rightarrow> string \<Rightarrow> string option \<Rightarrow> string" where
  "construct_sql table cols conflict_columns conflict_action update_clause =
     (let placeholders = join '', '' (map (\<lambda>col. '':'' @ col) cols) in
      if conflict_columns \<noteq> [] then
        (let conflict_str = ''ON CONFLICT ('' @ join '', '' conflict_columns @ '')'' in
         if conflict_action = ''DO UPDATE'' then
           (let default_clause =
                  join '', '' (map (\<lambda>col. col @ '' = EXCLUDED.'' @ col)
                                   (filter (\<lambda>col. col \<notin> set conflict_columns) cols));
                clause = (case update_clause of
                            None \<Rightarrow> default_clause
                          | Some u \<Rightarrow> if u \<noteq> [] then u else default_clause)
            in nl 20 @ ''INSERT INTO '' @ table @ '' ('' @ join '', '' cols @ '')''
               @ nl 20 @ ''VALUES ('' @ placeholders @ '')''
               @ nl 20 @ conflict_str @ '' DO UPDATE SET '' @ clause
               @ nl 16)
         else
           nl 20 @ ''INSERT INTO '' @ table @ '' ('' @ join '', '' cols @ '')''
           @ nl 20 @ ''VALUES ('' @ placeholders @ '')''
           @ nl 20 @ conflict_str @ '' '' @ conflict_action
           @ nl 16)
      else
        nl 16 @ ''INSERT INTO '' @ table @ '' ('' @ join '', '' cols @ '')''
        @ nl 16 @ ''VALUES ('' @ placeholders @ '')''
        @ nl 12)"

definition backslash :: char where
  "backslash = CHR 0x5C"

definition dquote :: char where
  "dquote = CHR 0x22"

text \<open>\<open>s.replace(old, new)\<close> for a pattern \<open>old\<close> of one character.\<close>

fun replace_char :: "char \<Rightarrow> string \<Rightarrow> string \<Rightarrow> string" where
  "replace_char old new [] = []"
| "replace_char old new (c # cs) = (if c = old then new else [c]) @ replace_char old new cs"

text \<open>
  \<open>escape_element\<close> and \<open>to_pg_array\<close>. The argument of \<open>escape_element\<close> is the text
  \<open>str(el)\<close> of the list element.
\<close>

definition escape_element :: "string \<Rightarrow> string" where
  "escape_element s =
     (let el = replace_char dquote [backslash, dquote]
                 (replace_char backslash [backslash, backslash] s)
      in if list_ex (\<lambda>c. c \<in> set el) [CHR '','', CHR '' '', CHR ''{'', CHR ''}'', dquote]
         then [dquote] @ el @ [dquote]
         else el)"

definition to_pg_array :: "string list \<Rightarrow> string" where
  "to_pg_array arr = ''{'' @ join '','' (map escape_element arr) @ ''}''"

text \<open>
  What \<open>ast.literal_eval\<close> returns, as far as the loader looks at it: a list, whose
  elements are carried as their \<open>str()\<close> texts, or any other value. The function itself
  belongs to Python's library and is a parameter; \<open>Inl\<close> is the exception it raised.
\<close>

datatype py_literal = PyList "string list" | PyOther

text \<open>
  A row of \<open>csv.DictReader\<close>: a dict from field names to cells; a cell is \<open>None\<close> where
  the line was short and, after cleaning, where it held the null sentinel \<open>\N\<close>.
\<close>

type_synonym csv_row = "string \<rightharpoonup> string option"

definition null_sentinel :: string where
  "null_sentinel = [backslash, CHR ''N'']"

definition array_columns :: "string list" where
  "array_columns = [''genres'', ''keywords'', ''producers'']"

definition clean_nulls :: "csv_row \<Rightarrow> csv_row" where
  "clean_nulls row =
     (\<lambda>key. map_option (\<lambda>v. if v = Some null_sentinel then None else v) (row key))"

text \<open>
  The body of \<open>for col in array_columns\<close>; \<open>except Exception: pass\<close> keeps the row as it
  is.
\<close>

definition coerce_array_column ::
    "(string \<Rightarrow> exn + py_literal) \<Rightarrow> string \<Rightarrow> csv_row \<Rightarrow> csv_row" where
  "coerce_array_column literal_eval col cleaned_row =
     (case cleaned_row col of
        Some (Some v) \<Rightarrow>
          if v \<noteq> [] then
            (case literal_eval v of
               Inl e \<Rightarrow> cleaned_row
             | Inr (PyList lst) \<Rightarrow> cleaned_row(col \<mapsto> Some (to_pg_array lst))
             | Inr PyOther \<Rightarrow> cleaned_row)
          else cleaned_row
      | _ \<Rightarrow> cleaned_row)"

definition clean_row :: "(string \<Rightarrow> exn + py_literal) \<Rightarrow> csv_row \<Rightarrow> csv_row" where
  "clean_row literal_eval row =
     fold (coerce_array_column literal_eval) array_columns (clean_nulls row)"

text \<open>
  \<open>copy_from_buffer\<close> from the parsed buffer on: \<open>cols\<close> is \<open>reader.fieldnames\<close>,
  \<open>reader\<close> the rows, and \<open>execute sql rows\<close> is \<open>conn.execute(text(sql), rows)\<close> followed
  by the commit, giving the exception it raised, if any.
\<close>

definition copy_from_buffer ::
    "(string \<Rightarrow> csv_row list \<Rightarrow> exn option) \<Rightarrow> (string \<Rightarrow> exn + py_literal)
       \<Rightarrow> string list \<Rightarrow> csv_row list \<Rightarrow> string \<Rightarrow> string \<Rightarrow> exn + bool" where
  "copy_from_buffer execute literal_eval cols reader table conflict_action =
     (let table_conflict_columns = get_conflict_columns table;
          rows_to_insert = map (clean_row literal_eval) reader
      in if rows_to_insert = [] then Inr False
         else (let sql = construct_sql table cols table_conflict_columns conflict_action None
               in case execute sql rows_to_insert of
                    Some e \<Rightarrow> Inl e
                  | None \<Rightarrow> Inr True))"

section \<open>Engine construction (DatabaseManager.__init__)\<close>

record DBConfig =
  host :: string
  port :: int
  database :: string
  user :: string
  password :: string

text \<open>\<open>DBConfig.__post_init__\<close>\<close>

definition DBConfig_post_init :: "DBConfig \<Rightarrow> exn + DBConfig" where
  "DBConfig_post_init c =
     (if port c \<le> 0 \<or> port c > 65535 then Inl (PyException ''ValueError: Invalid port number'')
      else Inr c)"

text \<open>The decimal text of an integer, as an f-string prints it.\<close>

fun str_nat :: "nat \<Rightarrow> string" where
  "str_nat n = (if n < 10 then [char_of (48 + n)] else str_nat (n div 10) @ [char_of (48 + n mod 10)])"

declare str_nat.simps [simp del]

definition str_int :: "int \<Rightarrow> string" where
  "str_int i = (if i < 0 then ''-'' @ str_nat (nat (- i)) else str_nat (nat i))"

text \<open>
  \<open>_init_sqlalchemy_engine\<close>; \<open>create_engine\<close> is SQLAlchemy's and is a parameter. The
  result is the value of \<open>self._engine\<close> afterwards. With an incomplete configuration
  the code logs \<open>Config is empty\<close> and returns.
\<close>

definition init_sqlalchemy_engine ::
    "(string \<Rightarrow> exn + 'e) \<Rightarrow> DBConfig option \<Rightarrow> exn + 'e option" where
  "init_sqlalchemy_engine create_engine config =
     (case config of
        None \<Rightarrow> Inr None
      | Some c \<Rightarrow>
          if password c \<noteq> [] \<and> user c \<noteq> [] \<and> host c \<noteq> [] \<and> port c \<noteq> 0 \<and> database c \<noteq> []
          then (case create_engine
                       (''postgresql+psycopg2://'' @ user c @ '':'' @ password c
                        @ ''@'' @ host c @ '':'' @ str_int (port c) @ ''/'' @ database c) of
                  Inl e \<Rightarrow> Inl (DatabaseError ''SQLAlchemy engine initialization failed'' (Some e))
                | Inr eng \<Rightarrow> Inr (Some eng))
          else Inr None)"

text \<open>
  The first construction of the manager: \<open>__init__\<close> stores the configuration, runs
  \<open>initialize()\<close> and sets \<open>_initialized\<close>. The field \<open>sa_engine\<close> is \<open>_engine\<close>.
\<close>

record 'e DatabaseManager =
  config :: "DBConfig option"
  sa_engine :: "'e option"
  initialized :: bool

definition DatabaseManager_init ::
    "(string \<Rightarrow> exn + 'e) \<Rightarrow> DBConfig option \<Rightarrow> exn + 'e DatabaseManager" where
  "DatabaseManager_init create_engine cfg =
     (case init_sqlalchemy_engine create_engine cfg of
        Inl e \<Rightarrow> Inl e
      | Inr eng \<Rightarrow> Inr \<lparr>config = cfg, sa_engine = eng, initialized = True\<rparr>)"

section \<open>Notions used to state the properties\<close>

text \<open>The (column, operator) pairs of one block, written without the code's helper.\<close>

definition block_pairs :: "condition list \<Rightarrow> (string \<times> string) set" where
  "block_pairs conds = (\<lambda>c. (fst c, fst (snd c))) ` set conds"

text \<open>
  What one fetched row gives to one block of the rule \<open>rid\<close>: nothing when the row has no
  condition (null \<open>column_name\<close>) or an empty \<open>column_name\<close>; otherwise its condition,
  for the user block exactly when \<open>table_name\<close> is \<open>user_details\<close>, for the other block in
  every other case.
\<close>

definition kept_condition :: "'i \<Rightarrow> bool \<Rightarrow> 'i joined_row \<Rightarrow> condition option" where
  "kept_condition rid as_user row =
     (case snd row of
        None \<Rightarrow> None
      | Some c \<Rightarrow>
          if r_rule_id (fst row) = rid \<and> rc_column_name c \<noteq> []
             \<and> ((rc_table_name c = ''user_details'') = as_user)
          then Some (row_condition c) else None)"

definition block_conditions :: "'i \<Rightarrow> bool \<Rightarrow> 'i joined_row list \<Rightarrow> condition list" where
  "block_conditions rid as_user rows = List.map_filter (kept_condition rid as_user) rows"

text \<open>The entry a first-seen \<open>rule_id\<close> gets, and an entry after a run of rows.\<close>

definition fresh_data :: "'i joined_row \<Rightarrow> rule_data" where
  "fresh_data row = \<lparr>target_value = r_target_value (fst row), user_conditions = [], other_conditions = []\<rparr>"

definition extend_data :: "rule_data \<Rightarrow> 'i \<Rightarrow> 'i joined_row list \<Rightarrow> rule_data" where
  "extend_data g rid rows =
     g\<lparr>user_conditions := user_conditions g @ block_conditions rid True rows,
       other_conditions := other_conditions g @ block_conditions rid False rows\<rparr>"

text \<open>The number of \<open>uuid4()\<close> calls \<open>save_rules\<close> makes for a list of rules.\<close>

definition ids_used :: "Rule list \<Rightarrow> nat" where
  "ids_used rs = sum_list (map (\<lambda>r. Suc (rule_len r)) rs)"

definition fk_ok :: "'i database \<Rightarrow> bool" where
  "fk_ok db = list_all (\<lambda>c. rc_rule_id c \<in> set (map r_rule_id (rules db))) (rule_conditions db)"




text \<open>A configuration with every required connection parameter present and non-empty.\<close>

definition complete_config :: "DBConfig option \<Rightarrow> bool" where
  "complete_config cfg =
     (case cfg of
        None \<Rightarrow> False
      | Some c \<Rightarrow> host c \<noteq> [] \<and> port c \<noteq> 0 \<and> database c \<noteq> [] \<and> user c \<noteq> [] \<and> password c \<noteq> [])"

section \<open>Lemmas on the codec\<close>

lemma cond_key_set_block_pairs: "cond_key_set conds = block_pairs conds"
proof -
  have "(\<lambda>(col, (op, _)). (col, op)) = (\<lambda>c::condition. (fst c, fst (snd c)))"
    by (simp add: fun_eq_iff split: prod.splits)
  then show ?thesis by (simp add: cond_key_set_def block_pairs_def)
qed

lemma block_conditions_Nil: "block_conditions rid u [] = []"
  by (simp add: block_conditions_def map_filter_simps)

lemma block_conditions_Cons:
  "block_conditions rid u (row # rows) =
     (case kept_condition rid u row of None \<Rightarrow> block_conditions rid u rows
      | Some c \<Rightarrow> c # block_conditions rid u rows)"
  by (simp add: block_conditions_def map_filter_simps split: option.splits)

lemma extend_data_Nil: "extend_data g rid [] = g"
  by (simp add: extend_data_def block_conditions_Nil)

lemma extend_data_Cons: "extend_data (extend_data g rid [row]) rid rows = extend_data g rid (row # rows)"
  by (simp add: extend_data_def block_conditions_Cons block_conditions_Nil split: option.splits)

lemma extend_data_other:
  "r_rule_id (fst row) \<noteq> rid \<Longrightarrow> extend_data g rid (row # rows) = extend_data g rid rows"
  by (simp add: extend_data_def block_conditions_Cons kept_condition_def split: option.splits)

lemma map_fst_dict_update: "map fst (dict_update k f d) = map fst d"
  by (induction d) (auto simp: dict_update_def)

lemma map_of_dict_update:
  "map_of (dict_update k f d) k' = (if k' = k then map_option f (map_of d k) else map_of d k')"
  by (induction d) (auto simp: dict_update_def)

lemma map_fst_add_row:
  "map fst (add_row row d) =
     (if r_rule_id (fst row) \<in> set (map fst d) then map fst d else map fst d @ [r_rule_id (fst row)])"
  by (simp add: add_row_def Let_def map_fst_dict_update split: option.splits)

lemma distinct_add_row: "distinct (map fst d) \<Longrightarrow> distinct (map fst (add_row row d))"
  by (simp add: map_fst_add_row)

lemma map_of_add_row:
  "map_of (add_row row d) rid =
     (case map_of d rid of
        Some g \<Rightarrow> Some (extend_data g rid [row])
      | None \<Rightarrow> if r_rule_id (fst row) = rid then Some (extend_data (fresh_data row) rid [row]) else None)"
proof (cases "r_rule_id (fst row) \<in> set (map fst d)")
  case True
  then obtain g0 where g0: "map_of d (r_rule_id (fst row)) = Some g0"
    by (metis map_of_eq_None_iff not_Some_eq set_map)
  show ?thesis using True g0
    by (auto simp: add_row_def Let_def map_of_dict_update extend_data_def block_conditions_Cons
        block_conditions_Nil kept_condition_def truthy_def row_column_name_def
        split: option.splits)
next
  case False
  then have none: "map_of d (r_rule_id (fst row)) = None"
    by (simp add: map_of_eq_None_iff)
  show ?thesis using False none
    by (auto simp: add_row_def Let_def map_of_dict_update map_add_def extend_data_def
        block_conditions_Cons block_conditions_Nil kept_condition_def truthy_def
        row_column_name_def fresh_data_def split: option.splits)
qed

lemma map_of_group_rows:
  "map_of (group_rows rows d) rid =
     (case map_of d rid of
        Some g \<Rightarrow> Some (extend_data g rid rows)
      | None \<Rightarrow>
          (case find (\<lambda>row. r_rule_id (fst row) = rid) rows of
             None \<Rightarrow> None
           | Some row \<Rightarrow> Some (extend_data (fresh_data row) rid rows)))"
proof (induction rows arbitrary: d)
  case Nil
  then show ?case by (simp add: extend_data_Nil split: option.splits)
next
  case (Cons row rows)
  show ?case
    by (simp add: Cons.IH map_of_add_row extend_data_Cons extend_data_other extend_data_Nil
        split: option.splits)
qed

lemma distinct_group_rows: "distinct (map fst d) \<Longrightarrow> distinct (map fst (group_rows rows d))"
  by (induction rows arbitrary: d) (simp_all add: distinct_add_row)

lemma encode_rules_append:
  "encode_rules uuid4 n (xs @ ys) =
     (fst (encode_rules uuid4 n xs) @ fst (encode_rules uuid4 (n + ids_used xs) ys),
      snd (encode_rules uuid4 n xs) @ snd (encode_rules uuid4 (n + ids_used xs) ys))"
  by (induction xs arbitrary: n) (simp_all add: ids_used_def Let_def add.assoc)

lemma encode_block_rule_id:
  "c \<in> set (encode_block uuid4 n rid tbl cs) \<Longrightarrow> rc_rule_id c = rid"
  by (induction cs arbitrary: n) (auto simp: condition_data_def split: prod.splits)

lemma encode_block_table:
  "c \<in> set (encode_block uuid4 n rid tbl cs) \<Longrightarrow> rc_table_name c = tbl"
  by (induction cs arbitrary: n) (auto simp: condition_data_def split: prod.splits)

lemma encode_block_keys:
  "(\<lambda>c. (rc_column_name c, rc_operator c)) ` set (encode_block uuid4 n rid tbl cs) = block_pairs cs"
  by (induction cs arbitrary: n) (auto simp: condition_data_def block_pairs_def split: prod.splits)

lemma encode_block_columns:
  "rc_column_name ` set (encode_block uuid4 n rid tbl cs) = fst ` set cs"
  by (induction cs arbitrary: n) (auto simp: condition_data_def split: prod.splits)

lemma encode_rules_refs:
  "c \<in> set (snd (encode_rules uuid4 n rs)) \<Longrightarrow>
     rc_rule_id c \<in> r_rule_id ` set (fst (encode_rules uuid4 n rs))"
  by (induction rs arbitrary: n) (auto simp: Let_def dest: encode_block_rule_id)

lemma set_left_join:
  "row \<in> set (left_join db) \<longleftrightarrow>
     fst row \<in> set (rules db) \<and>
     (case snd row of
        None \<Rightarrow> filter (\<lambda>c. rc_rule_id c = r_rule_id (fst row)) (rule_conditions db) = []
      | Some c \<Rightarrow> c \<in> set (rule_conditions db) \<and> rc_rule_id c = r_rule_id (fst row))"
proof -
  have one: "\<And>r. row \<in> set (case filter (\<lambda>c. rc_rule_id c = r_rule_id r) (rule_conditions db) of
                         [] \<Rightarrow> [(r, None)] | cs \<Rightarrow> map (\<lambda>c. (r, Some c)) cs) \<longleftrightarrow>
     fst row = r \<and>
     (case snd row of
        None \<Rightarrow> filter (\<lambda>c. rc_rule_id c = r_rule_id r) (rule_conditions db) = []
      | Some c \<Rightarrow> c \<in> set (rule_conditions db) \<and> rc_rule_id c = r_rule_id r)"
  proof -
    fix r
    show "?thesis r"
    proof (cases "filter (\<lambda>c. rc_rule_id c = r_rule_id r) (rule_conditions db)")
      case Nil
      then show ?thesis
        by (cases row) (auto simp: filter_empty_conv split: option.splits)
    next
      case (Cons a as)
      then have "set (a # as) = {c \<in> set (rule_conditions db). rc_rule_id c = r_rule_id r}"
        by (metis set_filter)
      then show ?thesis using Cons
        by (cases row) (auto split: option.splits)
    qed
  qed
  show ?thesis
    unfolding left_join_def set_concat set_map
    using one by (auto split: option.splits)
qed

lemma set_select_rows:
  "set (select_rows db tv) = {row \<in> set (left_join db). r_target_value (fst row) = tv}"
  by (auto simp: select_rows_def)

lemma length_encode_rules: "length (fst (encode_rules uuid4 n rs)) = length rs"
  by (induction rs arbitrary: n) (simp_all add: Let_def)

lemma save_rules_Inr:
  assumes "save_rules (Some eng) uuid4 rs = Inr eng'" and "rs \<noteq> []"
  shows "connect_fault eng' = None \<and> execute_fault eng' = None \<and> commit_fault eng' = None
    \<and> rules (store eng') = rules (store eng) @ fst (encode_rules uuid4 0 rs)
    \<and> rule_conditions (store eng') = rule_conditions (store eng) @ snd (encode_rules uuid4 0 rs)
    \<and> distinct (map r_rule_id (rules (store eng')))"
proof -
  obtain rd cd where E: "encode_rules uuid4 0 rs = (rd, cd)"
    by (cases "encode_rules uuid4 0 rs")
  have "length rd = length rs"
    using length_encode_rules [of uuid4 0 rs] E by simp
  with assms(2) have rd: "rd \<noteq> []" by auto
  show ?thesis
    using assms(1) rd
    by (auto simp: save_rules_def connection_def E insert_rules_def insert_conditions_def
        split: option.splits sum.splits if_splits)
qed

lemma np_int64_sint: "np_int64 (sint (w :: 64 word)) = Inr w"
proof -
  have "- (2 ^ 63) \<le> sint w" using sint_ge [of w] by simp
  moreover have "sint w < 2 ^ 63" using sint_lt [of w] by simp
  ultimately show ?thesis by (simp add: np_int64_def)
qed

lemma build_rules_member:
  "(rid, g) \<in> set d \<Longrightarrow> np_int64 (target_value g) = Inr t \<Longrightarrow>
     \<lparr>rule_id = rid, rule_obj = Rule_init [] (user_conditions g) (other_conditions g) t\<rparr>
       \<in> set (build_rules d)"
  by (induction d rule: build_rules.induct) (auto split: sum.splits)

lemma build_rules_origin:
  "x \<in> set (build_rules d) \<Longrightarrow>
     \<exists>g t. (rule_id x, g) \<in> set d \<and> np_int64 (target_value g) = Inr t
       \<and> rule_obj x = Rule_init [] (user_conditions g) (other_conditions g) t"
  by (induction d rule: build_rules.induct) (auto split: sum.splits)

lemma set_block_conditions:
  "set (block_conditions rid u rows) =
     {row_condition c | c r. (r, Some c) \<in> set rows \<and> r_rule_id r = rid
        \<and> rc_column_name c \<noteq> [] \<and> ((rc_table_name c = ''user_details'') = u)}"
proof (induction rows)
  case Nil
  then show ?case by (simp add: block_conditions_Nil)
next
  case (Cons row rows)
  obtain r oc where row: "row = (r, oc)" by (cases row)
  show ?case
    by (cases oc) (auto simp: block_conditions_Cons kept_condition_def row Cons.IH)
qed

lemma cond_key_set_block_conditions:
  "cond_key_set (block_conditions rid u rows) =
     {(rc_column_name c, rc_operator c) | c r. (r, Some c) \<in> set rows \<and> r_rule_id r = rid
        \<and> rc_column_name c \<noteq> [] \<and> ((rc_table_name c = ''user_details'') = u)}"
  unfolding cond_key_set_block_pairs block_pairs_def set_block_conditions
  by (auto simp: row_condition_def image_iff) force+

lemma saved_rule_rows:
  assumes fk: "fk_ok (store eng)"
    and saved: "save_rules (Some eng) uuid4 (pre @ r # post) = Inr eng'"
  defines "rid \<equiv> uuid4 (ids_used pre)"
  defines "header \<equiv> \<lparr>r_rule_id = rid, r_target_value = sint (target r)\<rparr>"
  defines "blk \<equiv> encode_block uuid4 (Suc (ids_used pre)) rid ''user_details'' (fst (conditions r))
                 @ encode_block uuid4 (Suc (ids_used pre) + length (fst (conditions r))) rid
                     ''anime_dataset'' (snd (conditions r))"
  shows "header \<in> set (rules (store eng'))"
    and "\<And>h. h \<in> set (rules (store eng')) \<Longrightarrow> r_rule_id h = rid \<Longrightarrow> h = header"
    and "filter (\<lambda>c. rc_rule_id c = rid) (rule_conditions (store eng')) = blk"
proof -
  let ?A = "encode_rules uuid4 0 pre"
  let ?B = "encode_rules uuid4 (Suc (ids_used pre + rule_len r)) post"
  have nonempty: "pre @ r # post \<noteq> []" by simp
  have S: "rules (store eng') = rules (store eng) @ fst (encode_rules uuid4 0 (pre @ r # post))"
    "rule_conditions (store eng') =
       rule_conditions (store eng) @ snd (encode_rules uuid4 0 (pre @ r # post))"
    "distinct (map r_rule_id (rules (store eng')))"
    using save_rules_Inr [OF saved nonempty] by blast+
  have E1: "fst (encode_rules uuid4 0 (pre @ r # post)) = fst ?A @ header # fst ?B"
    by (simp add: encode_rules_append Let_def header_def rid_def)
  have E2: "snd (encode_rules uuid4 0 (pre @ r # post)) = snd ?A @ blk @ snd ?B"
    by (simp add: encode_rules_append Let_def blk_def rid_def)
  have R: "rules (store eng') = rules (store eng) @ fst ?A @ header # fst ?B"
    using S(1) E1 by simp
  show "header \<in> set (rules (store eng'))" by (simp add: R)
  have dist: "distinct (map r_rule_id (rules (store eng) @ fst ?A @ header # fst ?B))"
    using S(3) R by simp
  have hid: "r_rule_id header = rid" by (simp add: header_def)
  show uniq: "\<And>h. h \<in> set (rules (store eng')) \<Longrightarrow> r_rule_id h = rid \<Longrightarrow> h = header"
  proof -
    fix h assume "h \<in> set (rules (store eng'))" "r_rule_id h = rid"
    then show "h = header"
      using S(3) \<open>header \<in> set (rules (store eng'))\<close> hid
      by (metis distinct_map inj_onD)
  qed
  have old: "\<And>c. c \<in> set (rule_conditions (store eng)) \<Longrightarrow> rc_rule_id c \<noteq> rid"
  proof
    fix c assume c: "c \<in> set (rule_conditions (store eng))" and "rc_rule_id c = rid"
    then have "rid \<in> r_rule_id ` set (rules (store eng))"
      using fk by (auto simp: fk_ok_def list_all_iff)
    then show False using dist hid by auto
  qed
  have inA: "\<And>c. c \<in> set (snd ?A) \<Longrightarrow> rc_rule_id c \<noteq> rid"
  proof
    fix c assume "c \<in> set (snd ?A)" and "rc_rule_id c = rid"
    then have "rid \<in> r_rule_id ` set (fst ?A)"
      using encode_rules_refs [of c uuid4 0 pre] by simp
    then show False using dist hid by auto
  qed
  have inB: "\<And>c. c \<in> set (snd ?B) \<Longrightarrow> rc_rule_id c \<noteq> rid"
  proof
    fix c assume "c \<in> set (snd ?B)" and "rc_rule_id c = rid"
    then have "rid \<in> r_rule_id ` set (fst ?B)"
      using encode_rules_refs [of c uuid4 _ post] by simp
    then show False using dist hid by auto
  qed
  have inblk: "\<And>c. c \<in> set blk \<Longrightarrow> rc_rule_id c = rid"
    by (auto simp: blk_def dest: encode_block_rule_id)
  have f0: "filter (\<lambda>c. rc_rule_id c = rid) (rule_conditions (store eng)) = []"
    using old by (simp add: filter_empty_conv)
  have fA: "filter (\<lambda>c. rc_rule_id c = rid) (snd ?A) = []"
    using inA by (simp add: filter_empty_conv)
  have fB: "filter (\<lambda>c. rc_rule_id c = rid) (snd ?B) = []"
    using inB by (simp add: filter_empty_conv)
  have fb: "filter (\<lambda>c. rc_rule_id c = rid) blk = blk"
    using inblk by (simp add: filter_id_conv)
  show "filter (\<lambda>c. rc_rule_id c = rid) (rule_conditions (store eng')) = blk"
    by (simp add: S(2) E2 f0 fA fB fb)
qed

lemma find_Some_member:
  "\<exists>x \<in> set xs. P x \<Longrightarrow> \<exists>y. find P xs = Some y \<and> y \<in> set xs \<and> P y"
  by (induction xs) auto

lemma set_page_rows_subset: "set (page_rows db tv offset limit) \<subseteq> set (select_rows db tv)"
  unfolding page_rows_def
  by (meson set_take_subset set_drop_subset subset_trans)

lemma encode_block_column_mem:
  "c \<in> set (encode_block uuid4 n rid tbl cs) \<Longrightarrow> rc_column_name c \<in> fst ` set cs"
  using encode_block_columns [of uuid4 n rid tbl cs] by blast

section \<open>Lemmas on the bulk loader\<close>








lemma copy_from_buffer_nonempty:
  "reader \<noteq> [] \<Longrightarrow>
     copy_from_buffer execute literal_eval cols reader table conflict_action
       = (case execute (construct_sql table cols (get_conflict_columns table) conflict_action None)
                 (map (clean_row literal_eval) reader) of
            Some e \<Rightarrow> Inl e
          | None \<Rightarrow> Inr True)"
  by (simp add: copy_from_buffer_def Let_def)

text \<open>\<open>connection\<close> is \<open>connection_txn\<close> for a body that swallows nothing.\<close>

lemma connection_as_connection_txn:
  "connection engine body
     = connection_txn engine (\<lambda>conn. case body conn of Inl e \<Rightarrow> Inl e | Inr res \<Rightarrow> Inr (res, Clean))"
  by (simp add: connection_def connection_txn_def split: option.splits sum.splits)

text \<open>The definitions unfolded to run the codec on a concrete store.\<close>

lemmas codec_defs = save_rules_def connection_def connection_txn_def txn_after_failure_def
  insert_rules_def insert_conditions_def
  condition_data_def rule_len_def get_rules_by_target_value_paginated_def execute_select_def
  page_rows_def select_rows_def left_join_def order_key_def add_row_def dict_update_def
  row_column_name_def truthy_def row_condition_def row_value_def np_int64_def Rule_init_def

section \<open>Rule algebra\<close>

text \<open>
  C3: two rules with the same set of (column, operator) pairs in each block and the same
  target are equal under \<open>__eq__\<close> and have the same \<open>__hash__\<close>, whatever the literal
  values and the order of the conditions.
\<close>

theorem equal_signature_eq_and_hash:
  assumes "block_pairs (fst (conditions a)) = block_pairs (fst (conditions b))"
    and "block_pairs (snd (conditions a)) = block_pairs (snd (conditions b))"
    and "target a = target b"
  shows "rule_eq a (RuleObj b) \<and> rule_hash py_hash a = rule_hash py_hash b"
  using assms by (simp add: rule_hash_def cond_signature_def cond_key_set_block_pairs)

theorem equal_signature_eq_and_hash_witness:
  "rule_eq \<lparr>columns = [], conditions = ([(''age'', (''>'', IntV 18)), (''sex'', (''=='', StrV ''F''))], []), target = 5\<rparr>
     (RuleObj \<lparr>columns = [''age''], conditions = ([(''sex'', (''=='', StrV ''M'')), (''age'', (''>'', IntV 30)), (''age'', (''>'', IntV 40))], []), target = 5\<rparr>)
   \<and> rule_hash (\<lambda>(us, os, t). sint t + int (card us)) \<lparr>columns = [], conditions = ([(''age'', (''>'', IntV 18)), (''sex'', (''=='', StrV ''F''))], []), target = 5\<rparr>
     = rule_hash (\<lambda>(us, os, t). sint t + int (card us)) \<lparr>columns = [''age''], conditions = ([(''sex'', (''=='', StrV ''M'')), (''age'', (''>'', IntV 30)), (''age'', (''>'', IntV 40))], []), target = 5\<rparr>"
  by (rule equal_signature_eq_and_hash) (auto simp: block_pairs_def)

text \<open>
  C4: \<open>is_subset_of a b\<close> is false when the targets differ; with equal targets it holds
  exactly when each block's set of (column, operator) pairs of \<open>a\<close> is contained in the
  corresponding set of \<open>b\<close>.
\<close>

theorem is_subset_of_iff:
  "is_subset_of a b =
     (target a = target b
      \<and> block_pairs (fst (conditions a)) \<subseteq> block_pairs (fst (conditions b))
      \<and> block_pairs (snd (conditions a)) \<subseteq> block_pairs (snd (conditions b)))"
  by (simp add: is_subset_of_def cond_signature_def cond_key_set_block_pairs)

text \<open>
  An instance: the first rule repeats a pair that the second has once, so it is a subset
  of the second; the second has a pair the first lacks; and a different target alone
  makes the test false.
\<close>

theorem is_subset_of_iff_witness:
  "is_subset_of
     \<lparr>columns = [], conditions = ([(''age'', (''>'', IntV 18)), (''age'', (''>'', IntV 30))], []), target = 5\<rparr>
     \<lparr>columns = [], conditions = ([(''age'', (''>'', IntV 5))], [(''genre'', (''=='', StrV ''x''))]), target = 5\<rparr>
   \<and> \<not> is_subset_of
     \<lparr>columns = [], conditions = ([(''age'', (''>'', IntV 5))], [(''genre'', (''=='', StrV ''x''))]), target = 5\<rparr>
     \<lparr>columns = [], conditions = ([(''age'', (''>'', IntV 18)), (''age'', (''>'', IntV 30))], []), target = 5\<rparr>
   \<and> \<not> is_subset_of
     \<lparr>columns = [], conditions = ([(''age'', (''>'', IntV 18))], []), target = 5\<rparr>
     \<lparr>columns = [], conditions = ([(''age'', (''>'', IntV 18))], []), target = 6\<rparr>"
  by (simp add: is_subset_of_iff block_pairs_def)

text \<open>
  C5: \<open>is_more_specific_than a b\<close> holds exactly when \<open>is_subset_of a b\<close> holds and the
  raw condition count of \<open>a\<close> (duplicates counted) is strictly greater than that of \<open>b\<close>.
\<close>

theorem is_more_specific_than_iff:
  "is_more_specific_than a b = (is_subset_of a b \<and> rule_len a > rule_len b)"
  by (simp add: is_more_specific_than_def rule_len_def)

text \<open>
  An instance: with two raw conditions on one pair against one, the rule is more
  specific; against itself (equal counts, subset) it is not.
\<close>

theorem is_more_specific_than_iff_witness:
  "is_more_specific_than
     \<lparr>columns = [], conditions = ([(''age'', (''>'', IntV 18)), (''age'', (''>'', IntV 30))], []), target = 5\<rparr>
     \<lparr>columns = [], conditions = ([(''age'', (''>'', IntV 5))], []), target = 5\<rparr>
   \<and> is_subset_of
     \<lparr>columns = [], conditions = ([(''age'', (''>'', IntV 5))], []), target = 5\<rparr>
     \<lparr>columns = [], conditions = ([(''age'', (''>'', IntV 5))], []), target = 5\<rparr>
   \<and> \<not> is_more_specific_than
     \<lparr>columns = [], conditions = ([(''age'', (''>'', IntV 5))], []), target = 5\<rparr>
     \<lparr>columns = [], conditions = ([(''age'', (''>'', IntV 5))], []), target = 5\<rparr>"
  by (simp add: is_more_specific_than_iff rule_len_def is_subset_of_def cond_signature_def
      cond_key_set_def)

section \<open>Round trip through the store\<close>

text \<open>
  C1 (as amended): let a batch containing the rule \<open>r\<close> be saved without fault into a
  store whose condition rows all refer to stored rules. If no condition of \<open>r\<close> has an
  empty column name, offset and limit are at least 0 and below \<open>2^63\<close>, and the requested
  window holds every joined row of the rule's new \<open>rule_id\<close>, then the fetch by \<open>r\<close>'s
  target returns, under that \<open>rule_id\<close>, a rule with the signature of \<open>r\<close>.
\<close>

theorem save_then_fetch_signature:
  assumes fk: "fk_ok (store eng)"
    and saved: "save_rules (Some eng) uuid4 (pre @ r # post) = Inr eng'"
    and cols: "\<forall>c \<in> set (fst (conditions r) @ snd (conditions r)). fst c \<noteq> []"
    and off: "0 \<le> offset" "offset < 2 ^ 63" and lim: "0 \<le> limit" "limit < 2 ^ 63"
    and window: "\<forall>row \<in> set (select_rows (store eng') (sint (target r))).
        r_rule_id (fst row) = uuid4 (ids_used pre) \<longrightarrow>
        row \<in> set (page_rows (store eng') (sint (target r)) offset limit)"
  shows "\<exists>xs. get_rules_by_target_value_paginated (Some eng') (sint (target r)) offset limit = Inr xs
           \<and> (\<exists>x \<in> set xs. rule_id x = uuid4 (ids_used pre)
                 \<and> cond_signature (rule_obj x) = cond_signature r)"
proof -
  define rid where "rid = uuid4 (ids_used pre)"
  define tv where "tv = sint (target r)"
  define header :: "'a rule_row" where "header = \<lparr>r_rule_id = rid, r_target_value = tv\<rparr>"
  define ucs where "ucs = encode_block uuid4 (Suc (ids_used pre)) rid ''user_details'' (fst (conditions r))"
  define ocs where "ocs = encode_block uuid4 (Suc (ids_used pre) + length (fst (conditions r))) rid
                     ''anime_dataset'' (snd (conditions r))"
  define W where "W = page_rows (store eng') tv offset limit"
  note SR = saved_rule_rows [OF fk saved, folded rid_def tv_def, folded header_def,
      folded ucs_def ocs_def]
  have nonempty: "pre @ r # post \<noteq> []" by simp
  have faults: "connect_fault eng' = None" "execute_fault eng' = None" "commit_fault eng' = None"
    using save_rules_Inr [OF saved nonempty] by blast+
  have fetch: "get_rules_by_target_value_paginated (Some eng') tv offset limit
                 = Inr (build_rules (group_rows W []))"
    using off lim
    by (simp add: get_rules_by_target_value_paginated_def connection_txn_def execute_select_def
        faults W_def)
  have sel: "row \<in> set (select_rows (store eng') tv) \<and> r_rule_id (fst row) = rid \<longleftrightarrow>
      fst row = header \<and> (case snd row of None \<Rightarrow> ucs @ ocs = [] | Some c \<Rightarrow> c \<in> set (ucs @ ocs))"
    for row
  proof -
    have memb: "c \<in> set (rule_conditions (store eng')) \<and> rc_rule_id c = rid \<longleftrightarrow> c \<in> set (ucs @ ocs)" for c
      using SR(3) by (metis (mono_tags, lifting) mem_Collect_eq set_filter)
    show ?thesis
    proof
      assume L: "row \<in> set (select_rows (store eng') tv) \<and> r_rule_id (fst row) = rid"
      then have j: "row \<in> set (left_join (store eng'))" by (simp add: set_select_rows)
      then have h: "fst row = header"
        using SR(2) L by (simp add: set_left_join)
      show "fst row = header \<and> (case snd row of None \<Rightarrow> ucs @ ocs = [] | Some c \<Rightarrow> c \<in> set (ucs @ ocs))"
      proof (cases "snd row")
        case None
        then show ?thesis using j h L SR(3) by (simp add: set_left_join)
      next
        case (Some c)
        then show ?thesis using j h L memb [of c] by (simp add: set_left_join)
      qed
    next
      assume R: "fst row = header \<and> (case snd row of None \<Rightarrow> ucs @ ocs = [] | Some c \<Rightarrow> c \<in> set (ucs @ ocs))"
      have hid: "r_rule_id header = rid" "r_target_value header = tv" by (simp_all add: header_def)
      show "row \<in> set (select_rows (store eng') tv) \<and> r_rule_id (fst row) = rid"
      proof (cases "snd row")
        case None
        then show ?thesis using R SR(1) SR(3) hid by (simp add: set_select_rows set_left_join)
      next
        case (Some c)
        then show ?thesis using R SR(1) hid memb [of c] by (simp add: set_select_rows set_left_join)
      qed
    qed
  qed
  have inW: "row \<in> set W \<and> r_rule_id (fst row) = rid \<longleftrightarrow>
      fst row = header \<and> (case snd row of None \<Rightarrow> ucs @ ocs = [] | Some c \<Rightarrow> c \<in> set (ucs @ ocs))"
    for row
  proof -
    have "row \<in> set W \<and> r_rule_id (fst row) = rid \<longleftrightarrow>
          row \<in> set (select_rows (store eng') tv) \<and> r_rule_id (fst row) = rid"
      using window set_page_rows_subset [of "store eng'" tv offset limit]
      unfolding W_def rid_def tv_def by blast
    then show ?thesis using sel by simp
  qed
  have ex: "\<exists>row \<in> set W. r_rule_id (fst row) = rid"
  proof (cases "ucs @ ocs")
    case Nil
    then have "(header, None) \<in> set W \<and> r_rule_id (fst (header, None :: 'a condition_row option)) = rid"
      by (subst inW) simp
    then show ?thesis by blast
  next
    case (Cons c cs)
    then have "(header, Some c) \<in> set W \<and> r_rule_id (fst (header, Some c)) = rid"
      by (subst inW) simp
    then show ?thesis by blast
  qed
  then obtain row1 where row1: "find (\<lambda>row. r_rule_id (fst row) = rid) W = Some row1"
      "row1 \<in> set W" "r_rule_id (fst row1) = rid"
    using find_Some_member [of W "\<lambda>row. r_rule_id (fst row) = rid"] by blast
  then have h1: "fst row1 = header" using inW [of row1] by simp
  define g where "g = extend_data (fresh_data row1) rid W"
  have "map_of (group_rows W []) rid = Some g"
    by (simp add: map_of_group_rows row1(1) g_def)
  then have gin: "(rid, g) \<in> set (group_rows W [])"
    by (rule map_of_SomeD)
  have gt: "np_int64 (target_value g) = Inr (target r)"
    by (simp add: g_def extend_data_def fresh_data_def h1 header_def tv_def np_int64_sint)
  define x where "x = \<lparr>rule_id = rid, rule_obj = Rule_init [] (user_conditions g) (other_conditions g) (target r)\<rparr>"
  have xin: "x \<in> set (build_rules (group_rows W []))"
    unfolding x_def using gin gt by (rule build_rules_member)
  have tables: "\<And>c. c \<in> set ucs \<Longrightarrow> rc_table_name c = ''user_details''"
    "\<And>c. c \<in> set ocs \<Longrightarrow> rc_table_name c = ''anime_dataset''"
    by (auto simp: ucs_def ocs_def dest: encode_block_table)
  have nonempty_cols: "\<And>c. c \<in> set (ucs @ ocs) \<Longrightarrow> rc_column_name c \<noteq> []"
  proof -
    fix c assume "c \<in> set (ucs @ ocs)"
    then have "rc_column_name c \<in> fst ` set (fst (conditions r) @ snd (conditions r))"
      unfolding ucs_def ocs_def by (auto dest: encode_block_column_mem)
    then show "rc_column_name c \<noteq> []" using cols by force
  qed
  have rowsW: "(h, Some c) \<in> set W \<and> r_rule_id h = rid \<longleftrightarrow> h = header \<and> c \<in> set (ucs @ ocs)" for h c
    using inW [of "(h, Some c)"] by simp
  have userkeys: "cond_key_set (block_conditions rid True W) = block_pairs (fst (conditions r))"
  proof -
    have "cond_key_set (block_conditions rid True W)
          = (\<lambda>c. (rc_column_name c, rc_operator c)) ` set ucs"
    proof (rule set_eqI, rule iffI)
      fix k assume "k \<in> cond_key_set (block_conditions rid True W)"
      then obtain c h where c: "k = (rc_column_name c, rc_operator c)" "(h, Some c) \<in> set W"
          "r_rule_id h = rid" "rc_table_name c = ''user_details''"
        unfolding cond_key_set_block_conditions by blast
      then have "c \<in> set (ucs @ ocs)" using rowsW [of h c] by simp
      then have "c \<in> set ucs" using c(4) tables(2) [of c] by auto
      then show "k \<in> (\<lambda>c. (rc_column_name c, rc_operator c)) ` set ucs" using c(1) by blast
    next
      fix k assume "k \<in> (\<lambda>c. (rc_column_name c, rc_operator c)) ` set ucs"
      then obtain c where c: "k = (rc_column_name c, rc_operator c)" "c \<in> set ucs" by blast
      then have "(header, Some c) \<in> set W \<and> r_rule_id header = rid"
        using rowsW [of header c] by simp
      moreover have "rc_column_name c \<noteq> []" using nonempty_cols [of c] c(2) by simp
      moreover have "rc_table_name c = ''user_details''" using tables(1) c(2) by simp
      ultimately show "k \<in> cond_key_set (block_conditions rid True W)"
        unfolding cond_key_set_block_conditions using c(1) by blast
    qed
    then show ?thesis by (simp add: ucs_def encode_block_keys)
  qed
  have otherkeys: "cond_key_set (block_conditions rid False W) = block_pairs (snd (conditions r))"
  proof -
    have "cond_key_set (block_conditions rid False W)
          = (\<lambda>c. (rc_column_name c, rc_operator c)) ` set ocs"
    proof (rule set_eqI, rule iffI)
      fix k assume "k \<in> cond_key_set (block_conditions rid False W)"
      then obtain c h where c: "k = (rc_column_name c, rc_operator c)" "(h, Some c) \<in> set W"
          "r_rule_id h = rid" "rc_table_name c \<noteq> ''user_details''"
        unfolding cond_key_set_block_conditions by blast
      then have "c \<in> set (ucs @ ocs)" using rowsW [of h c] by simp
      then have "c \<in> set ocs" using c(4) tables(1) [of c] by auto
      then show "k \<in> (\<lambda>c. (rc_column_name c, rc_operator c)) ` set ocs" using c(1) by blast
    next
      fix k assume "k \<in> (\<lambda>c. (rc_column_name c, rc_operator c)) ` set ocs"
      then obtain c where c: "k = (rc_column_name c, rc_operator c)" "c \<in> set ocs" by blast
      then have "(header, Some c) \<in> set W \<and> r_rule_id header = rid"
        using rowsW [of header c] by simp
      moreover have "rc_column_name c \<noteq> []" using nonempty_cols [of c] c(2) by simp
      moreover have "rc_table_name c \<noteq> ''user_details''" using tables(2) c(2) by simp
      ultimately show "k \<in> cond_key_set (block_conditions rid False W)"
        unfolding cond_key_set_block_conditions using c(1) by blast
    qed
    then show ?thesis by (simp add: ocs_def encode_block_keys)
  qed
  have "cond_signature (rule_obj x) = cond_signature r"
    by (simp add: x_def Rule_init_def cond_signature_def g_def extend_data_def fresh_data_def
        userkeys otherkeys cond_key_set_block_pairs [symmetric])
  moreover have "rule_id x = rid" by (simp add: x_def)
  ultimately show ?thesis
    using fetch xin unfolding rid_def tv_def by blast
qed

text \<open>
  An instance: the rule has a repeated (column, operator) pair with two different values;
  the store is empty before the save, and \<open>uuid4\<close> returns 100, 101, ...
\<close>

theorem save_then_fetch_signature_witness:
  "\<exists>xs. get_rules_by_target_value_paginated
          (Some \<lparr>store = \<lparr>rules = [\<lparr>r_rule_id = 100 :: nat, r_target_value = 5\<rparr>],
                          rule_conditions =
                            [\<lparr>rc_condition_id = 101, rc_rule_id = 100, rc_table_name = ''user_details'',
                              rc_column_name = ''age'', rc_operator = ''>'',
                              rc_value_text = None, rc_value_numeric = Some (IntV 18)\<rparr>,
                             \<lparr>rc_condition_id = 102, rc_rule_id = 100, rc_table_name = ''user_details'',
                              rc_column_name = ''age'', rc_operator = ''>'',
                              rc_value_text = None, rc_value_numeric = Some (IntV 30)\<rparr>,
                             \<lparr>rc_condition_id = 103, rc_rule_id = 100, rc_table_name = ''anime_dataset'',
                              rc_column_name = ''genre'', rc_operator = ''=='',
                              rc_value_text = Some ''x'', rc_value_numeric = None\<rparr>]\<rparr>,
                 connect_fault = None, execute_fault = None, commit_fault = None\<rparr>) 5 0 500 = Inr xs
      \<and> (\<exists>x \<in> set xs. rule_id x = 100
            \<and> cond_signature (rule_obj x)
                = cond_signature \<lparr>columns = [], conditions = ([(''age'', (''>'', IntV 18)), (''age'', (''>'', IntV 30))],
                                   [(''genre'', (''=='', StrV ''x''))]), target = 5\<rparr>)"
proof -
  let ?eng = "\<lparr>store = \<lparr>rules = [] :: nat rule_row list, rule_conditions = []\<rparr>,
               connect_fault = None, execute_fault = None, commit_fault = None\<rparr>"
  let ?r = "\<lparr>columns = [], conditions = ([(''age'', (''>'', IntV 18)), (''age'', (''>'', IntV 30))],
                                   [(''genre'', (''=='', StrV ''x''))]), target = 5\<rparr>"
  let ?eng' = "\<lparr>store = \<lparr>rules = [\<lparr>r_rule_id = 100 :: nat, r_target_value = 5\<rparr>],
                          rule_conditions =
                            [\<lparr>rc_condition_id = 101, rc_rule_id = 100, rc_table_name = ''user_details'',
                              rc_column_name = ''age'', rc_operator = ''>'',
                              rc_value_text = None, rc_value_numeric = Some (IntV 18)\<rparr>,
                             \<lparr>rc_condition_id = 102, rc_rule_id = 100, rc_table_name = ''user_details'',
                              rc_column_name = ''age'', rc_operator = ''>'',
                              rc_value_text = None, rc_value_numeric = Some (IntV 30)\<rparr>,
                             \<lparr>rc_condition_id = 103, rc_rule_id = 100, rc_table_name = ''anime_dataset'',
                              rc_column_name = ''genre'', rc_operator = ''=='',
                              rc_value_text = Some ''x'', rc_value_numeric = None\<rparr>]\<rparr>,
                 connect_fault = None, execute_fault = None, commit_fault = None\<rparr>"
  have fk: "fk_ok (store ?eng)" by (simp add: fk_ok_def)
  have saved: "save_rules (Some ?eng) ((+) 100) ([] @ ?r # []) = Inr ?eng'"
    by (simp add: codec_defs)
  have cols: "\<forall>c \<in> set (fst (conditions ?r) @ snd (conditions ?r)). fst c \<noteq> []" by simp
  have window: "\<forall>row \<in> set (select_rows (store ?eng') (sint (target ?r))).
        r_rule_id (fst row) = ((+) 100) (ids_used []) \<longrightarrow>
        row \<in> set (page_rows (store ?eng') (sint (target ?r)) 0 500)"
    by (simp add: codec_defs)
  show ?thesis
    using save_then_fetch_signature [OF fk saved cols _ _ _ _ window] by (simp add: ids_used_def)
qed

text \<open>
  C1 as stated fails. A condition with an empty column name is stored and then dropped by
  the fetch; and with \<open>limit = 1\<close> a rule with two conditions is cut at the page boundary,
  so that no page holds a rule with its signature.
\<close>

theorem save_then_fetch_signature_counterexample:
  "save_rules (Some \<lparr>store = \<lparr>rules = [], rule_conditions = []\<rparr>,
                     connect_fault = None, execute_fault = None, commit_fault = None\<rparr>)
      ((+) (100 :: nat))
      [\<lparr>columns = [], conditions = ([('''', (''=='', IntV 1))], []), target = 5\<rparr>]
     = Inr \<lparr>store = \<lparr>rules = [\<lparr>r_rule_id = 100, r_target_value = 5\<rparr>],
                     rule_conditions =
                       [\<lparr>rc_condition_id = 101, rc_rule_id = 100, rc_table_name = ''user_details'',
                         rc_column_name = '''', rc_operator = ''=='',
                         rc_value_text = None, rc_value_numeric = Some (IntV 1)\<rparr>]\<rparr>,
            connect_fault = None, execute_fault = None, commit_fault = None\<rparr>
   \<and> get_rules_by_target_value_paginated
        (Some \<lparr>store = \<lparr>rules = [\<lparr>r_rule_id = 100 :: nat, r_target_value = 5\<rparr>],
                     rule_conditions =
                       [\<lparr>rc_condition_id = 101, rc_rule_id = 100, rc_table_name = ''user_details'',
                         rc_column_name = '''', rc_operator = ''=='',
                         rc_value_text = None, rc_value_numeric = Some (IntV 1)\<rparr>]\<rparr>,
            connect_fault = None, execute_fault = None, commit_fault = None\<rparr>) 5 0 500
     = Inr [\<lparr>rule_id = 100, rule_obj = \<lparr>columns = [], conditions = ([], []), target = 5\<rparr>\<rparr>]
   \<and> cond_signature \<lparr>columns = [], conditions = ([], []), target = 5\<rparr>
     \<noteq> cond_signature \<lparr>columns = [], conditions = ([('''', (''=='', IntV 1))], []), target = 5\<rparr>
   \<and> save_rules (Some \<lparr>store = \<lparr>rules = [], rule_conditions = []\<rparr>,
                     connect_fault = None, execute_fault = None, commit_fault = None\<rparr>)
      ((+) (100 :: nat))
      [\<lparr>columns = [], conditions = ([(''age'', (''>'', IntV 18))], [(''genre'', (''=='', StrV ''x''))]), target = 5\<rparr>]
     = Inr \<lparr>store = \<lparr>rules = [\<lparr>r_rule_id = 100 :: nat, r_target_value = 5\<rparr>],
                     rule_conditions =
                       [\<lparr>rc_condition_id = 101, rc_rule_id = 100, rc_table_name = ''user_details'',
                         rc_column_name = ''age'', rc_operator = ''>'',
                         rc_value_text = None, rc_value_numeric = Some (IntV 18)\<rparr>,
                        \<lparr>rc_condition_id = 102, rc_rule_id = 100, rc_table_name = ''anime_dataset'',
                         rc_column_name = ''genre'', rc_operator = ''=='',
                         rc_value_text = Some ''x'', rc_value_numeric = None\<rparr>]\<rparr>,
            connect_fault = None, execute_fault = None, commit_fault = None\<rparr>
   \<and> get_rules_by_target_value_paginated (Some \<lparr>store = \<lparr>rules = [\<lparr>r_rule_id = 100 :: nat, r_target_value = 5\<rparr>],
                     rule_conditions =
                       [\<lparr>rc_condition_id = 101, rc_rule_id = 100, rc_table_name = ''user_details'',
                         rc_column_name = ''age'', rc_operator = ''>'',
                         rc_value_text = None, rc_value_numeric = Some (IntV 18)\<rparr>,
                        \<lparr>rc_condition_id = 102, rc_rule_id = 100, rc_table_name = ''anime_dataset'',
                         rc_column_name = ''genre'', rc_operator = ''=='',
                         rc_value_text = Some ''x'', rc_value_numeric = None\<rparr>]\<rparr>,
            connect_fault = None, execute_fault = None, commit_fault = None\<rparr>) 5 0 1
     = Inr [\<lparr>rule_id = 100, rule_obj = \<lparr>columns = [],
              conditions = ([(''age'', (''>'', IntV 18))], []), target = 5\<rparr>\<rparr>]
   \<and> get_rules_by_target_value_paginated (Some \<lparr>store = \<lparr>rules = [\<lparr>r_rule_id = 100 :: nat, r_target_value = 5\<rparr>],
                     rule_conditions =
                       [\<lparr>rc_condition_id = 101, rc_rule_id = 100, rc_table_name = ''user_details'',
                         rc_column_name = ''age'', rc_operator = ''>'',
                         rc_value_text = None, rc_value_numeric = Some (IntV 18)\<rparr>,
                        \<lparr>rc_condition_id = 102, rc_rule_id = 100, rc_table_name = ''anime_dataset'',
                         rc_column_name = ''genre'', rc_operator = ''=='',
                         rc_value_text = Some ''x'', rc_value_numeric = None\<rparr>]\<rparr>,
            connect_fault = None, execute_fault = None, commit_fault = None\<rparr>) 5 1 1
     = Inr [\<lparr>rule_id = 100, rule_obj = \<lparr>columns = [],
              conditions = ([], [(''genre'', (''=='', StrV ''x''))]), target = 5\<rparr>\<rparr>]
   \<and> get_rules_by_target_value_paginated (Some \<lparr>store = \<lparr>rules = [\<lparr>r_rule_id = 100 :: nat, r_target_value = 5\<rparr>],
                     rule_conditions =
                       [\<lparr>rc_condition_id = 101, rc_rule_id = 100, rc_table_name = ''user_details'',
                         rc_column_name = ''age'', rc_operator = ''>'',
                         rc_value_text = None, rc_value_numeric = Some (IntV 18)\<rparr>,
                        \<lparr>rc_condition_id = 102, rc_rule_id = 100, rc_table_name = ''anime_dataset'',
                         rc_column_name = ''genre'', rc_operator = ''=='',
                         rc_value_text = Some ''x'', rc_value_numeric = None\<rparr>]\<rparr>,
            connect_fault = None, execute_fault = None, commit_fault = None\<rparr>) 5 2 1
     = Inr []
   \<and> cond_signature \<lparr>columns = [], conditions = ([(''age'', (''>'', IntV 18))], []), target = 5\<rparr>
     \<noteq> cond_signature \<lparr>columns = [], conditions = ([(''age'', (''>'', IntV 18))], [(''genre'', (''=='', StrV ''x''))]), target = 5\<rparr>
   \<and> cond_signature \<lparr>columns = [], conditions = ([], [(''genre'', (''=='', StrV ''x''))]), target = 5\<rparr>
     \<noteq> cond_signature \<lparr>columns = [], conditions = ([(''age'', (''>'', IntV 18))], [(''genre'', (''=='', StrV ''x''))]), target = 5\<rparr>"
  by (simp add: codec_defs cond_signature_def cond_key_set_def)

section \<open>Pagination\<close>

text \<open>
  C2: the window \<open>OFFSET/LIMIT\<close> counts joined rows, not rules. One stored rule with two
  conditions, fetched with \<open>limit = 1\<close>: the pages at offsets 0 and 1 both return
  \<open>rule_id\<close> 1, each with a part of the rule, the page at offset 2 is empty, and one fetch
  with \<open>limit = 500\<close> returns the rule once, whole.
\<close>

theorem page_window_splits_rule:
  "get_rules_by_target_value_paginated
     (Some \<lparr>store = \<lparr>rules = [\<lparr>r_rule_id = 1 :: nat, r_target_value = 5\<rparr>],
                     rule_conditions =
                       [\<lparr>rc_condition_id = 10, rc_rule_id = 1, rc_table_name = ''user_details'',
                         rc_column_name = ''age'', rc_operator = ''>'',
                         rc_value_text = None, rc_value_numeric = Some (IntV 18)\<rparr>,
                        \<lparr>rc_condition_id = 11, rc_rule_id = 1, rc_table_name = ''anime_dataset'',
                         rc_column_name = ''genre'', rc_operator = ''=='',
                         rc_value_text = Some ''x'', rc_value_numeric = None\<rparr>]\<rparr>,
            connect_fault = None, execute_fault = None, commit_fault = None\<rparr>) 5 0 1
     = Inr [\<lparr>rule_id = 1, rule_obj = \<lparr>columns = [],
              conditions = ([(''age'', (''>'', IntV 18))], []), target = 5\<rparr>\<rparr>]
   \<and> get_rules_by_target_value_paginated
     (Some \<lparr>store = \<lparr>rules = [\<lparr>r_rule_id = 1 :: nat, r_target_value = 5\<rparr>],
                     rule_conditions =
                       [\<lparr>rc_condition_id = 10, rc_rule_id = 1, rc_table_name = ''user_details'',
                         rc_column_name = ''age'', rc_operator = ''>'',
                         rc_value_text = None, rc_value_numeric = Some (IntV 18)\<rparr>,
                        \<lparr>rc_condition_id = 11, rc_rule_id = 1, rc_table_name = ''anime_dataset'',
                         rc_column_name = ''genre'', rc_operator = ''=='',
                         rc_value_text = Some ''x'', rc_value_numeric = None\<rparr>]\<rparr>,
            connect_fault = None, execute_fault = None, commit_fault = None\<rparr>) 5 1 1
     = Inr [\<lparr>rule_id = 1, rule_obj = \<lparr>columns = [],
              conditions = ([], [(''genre'', (''=='', StrV ''x''))]), target = 5\<rparr>\<rparr>]
   \<and> get_rules_by_target_value_paginated
     (Some \<lparr>store = \<lparr>rules = [\<lparr>r_rule_id = 1 :: nat, r_target_value = 5\<rparr>],
                     rule_conditions =
                       [\<lparr>rc_condition_id = 10, rc_rule_id = 1, rc_table_name = ''user_details'',
                         rc_column_name = ''age'', rc_operator = ''>'',
                         rc_value_text = None, rc_value_numeric = Some (IntV 18)\<rparr>,
                        \<lparr>rc_condition_id = 11, rc_rule_id = 1, rc_table_name = ''anime_dataset'',
                         rc_column_name = ''genre'', rc_operator = ''=='',
                         rc_value_text = Some ''x'', rc_value_numeric = None\<rparr>]\<rparr>,
            connect_fault = None, execute_fault = None, commit_fault = None\<rparr>) 5 2 1
     = Inr []
   \<and> get_rules_by_target_value_paginated
     (Some \<lparr>store = \<lparr>rules = [\<lparr>r_rule_id = 1 :: nat, r_target_value = 5\<rparr>],
                     rule_conditions =
                       [\<lparr>rc_condition_id = 10, rc_rule_id = 1, rc_table_name = ''user_details'',
                         rc_column_name = ''age'', rc_operator = ''>'',
                         rc_value_text = None, rc_value_numeric = Some (IntV 18)\<rparr>,
                        \<lparr>rc_condition_id = 11, rc_rule_id = 1, rc_table_name = ''anime_dataset'',
                         rc_column_name = ''genre'', rc_operator = ''=='',
                         rc_value_text = Some ''x'', rc_value_numeric = None\<rparr>]\<rparr>,
            connect_fault = None, execute_fault = None, commit_fault = None\<rparr>) 5 0 500
     = Inr [\<lparr>rule_id = 1, rule_obj = \<lparr>columns = [],
              conditions = ([(''age'', (''>'', IntV 18))], [(''genre'', (''=='', StrV ''x''))]),
              target = 5\<rparr>\<rparr>]"
  by (simp add: codec_defs)

section \<open>Decoding rows into the two blocks\<close>

text \<open>
  C10 (as amended): in every rule a fetch returns, the user block is the conditions of the
  page's rows of that \<open>rule_id\<close> whose \<open>column_name\<close> is neither null nor empty and whose
  \<open>table_name\<close> is \<open>user_details\<close>, in page order, and the other block is those of the
  rows whose \<open>column_name\<close> is neither null nor empty and whose \<open>table_name\<close> is anything
  else; a row with a null or empty \<open>column_name\<close> gives no condition.
\<close>

theorem decoded_blocks:
  assumes page: "execute_select conn tv offset limit = Inr page"
    and fetched: "get_rules_by_target_value_paginated (Some conn) tv offset limit = Inr xs"
    and x: "x \<in> set xs"
  shows "conditions (rule_obj x)
           = (block_conditions (rule_id x) True page, block_conditions (rule_id x) False page)"
proof -
  have xs: "xs = build_rules (group_rows page [])"
    using fetched page
    by (simp add: get_rules_by_target_value_paginated_def connection_txn_def
        split: option.splits if_splits)
  with x obtain g t where g: "(rule_id x, g) \<in> set (group_rows page [])"
      and obj: "rule_obj x = Rule_init [] (user_conditions g) (other_conditions g) t"
    using build_rules_origin [of x "group_rows page []"] by blast
  have "distinct (map fst (group_rows page ([] :: 'a rules_dict)))"
    by (rule distinct_group_rows) simp
  with g have "map_of (group_rows page []) (rule_id x) = Some g"
    by (simp add: map_of_is_SomeI)
  then have "user_conditions g = block_conditions (rule_id x) True page
      \<and> other_conditions g = block_conditions (rule_id x) False page"
    by (auto simp: map_of_group_rows extend_data_def fresh_data_def split: option.splits)
  then show ?thesis
    by (simp add: obj Rule_init_def)
qed

text \<open>
  An instance: a row tagged \<open>staff\<close> goes to the other block, and a row with an empty
  column name goes nowhere.
\<close>

theorem decoded_blocks_witness:
  "conditions \<lparr>columns = [], conditions = ([(''age'', (''>'', IntV 18))], [(''genre'', (''=='', StrV ''x''))]), target = 5\<rparr>
     = (block_conditions (1 :: nat) True
          [(\<lparr>r_rule_id = 1, r_target_value = 5\<rparr>,
            Some \<lparr>rc_condition_id = 10, rc_rule_id = 1, rc_table_name = ''user_details'',
                  rc_column_name = ''age'', rc_operator = ''>'',
                  rc_value_text = None, rc_value_numeric = Some (IntV 18)\<rparr>),
           (\<lparr>r_rule_id = 1, r_target_value = 5\<rparr>,
            Some \<lparr>rc_condition_id = 11, rc_rule_id = 1, rc_table_name = ''staff'',
                  rc_column_name = ''genre'', rc_operator = ''=='',
                  rc_value_text = Some ''x'', rc_value_numeric = None\<rparr>),
           (\<lparr>r_rule_id = 1, r_target_value = 5\<rparr>,
            Some \<lparr>rc_condition_id = 12, rc_rule_id = 1, rc_table_name = ''user_details'',
                  rc_column_name = '''', rc_operator = ''<'',
                  rc_value_text = None, rc_value_numeric = Some (IntV 3)\<rparr>)],
        block_conditions (1 :: nat) False
          [(\<lparr>r_rule_id = 1, r_target_value = 5\<rparr>,
            Some \<lparr>rc_condition_id = 10, rc_rule_id = 1, rc_table_name = ''user_details'',
                  rc_column_name = ''age'', rc_operator = ''>'',
                  rc_value_text = None, rc_value_numeric = Some (IntV 18)\<rparr>),
           (\<lparr>r_rule_id = 1, r_target_value = 5\<rparr>,
            Some \<lparr>rc_condition_id = 11, rc_rule_id = 1, rc_table_name = ''staff'',
                  rc_column_name = ''genre'', rc_operator = ''=='',
                  rc_value_text = Some ''x'', rc_value_numeric = None\<rparr>),
           (\<lparr>r_rule_id = 1, r_target_value = 5\<rparr>,
            Some \<lparr>rc_condition_id = 12, rc_rule_id = 1, rc_table_name = ''user_details'',
                  rc_column_name = '''', rc_operator = ''<'',
                  rc_value_text = None, rc_value_numeric = Some (IntV 3)\<rparr>)])"
proof -
  let ?conn = "\<lparr>store = \<lparr>rules = [\<lparr>r_rule_id = 1 :: nat, r_target_value = 5\<rparr>],
                     rule_conditions =
                       [\<lparr>rc_condition_id = 10, rc_rule_id = 1, rc_table_name = ''user_details'',
                         rc_column_name = ''age'', rc_operator = ''>'',
                         rc_value_text = None, rc_value_numeric = Some (IntV 18)\<rparr>,
                        \<lparr>rc_condition_id = 11, rc_rule_id = 1, rc_table_name = ''staff'',
                         rc_column_name = ''genre'', rc_operator = ''=='',
                         rc_value_text = Some ''x'', rc_value_numeric = None\<rparr>,
                        \<lparr>rc_condition_id = 12, rc_rule_id = 1, rc_table_name = ''user_details'',
                         rc_column_name = '''', rc_operator = ''<'',
                         rc_value_text = None, rc_value_numeric = Some (IntV 3)\<rparr>]\<rparr>,
            connect_fault = None, execute_fault = None, commit_fault = None\<rparr>"
  let ?x = "\<lparr>rule_id = 1 :: nat, rule_obj = \<lparr>columns = [],
              conditions = ([(''age'', (''>'', IntV 18))], [(''genre'', (''=='', StrV ''x''))]),
              target = 5\<rparr>\<rparr>"
  have page: "execute_select ?conn 5 0 500 =
      Inr [(\<lparr>r_rule_id = 1, r_target_value = 5\<rparr>,
            Some \<lparr>rc_condition_id = 10, rc_rule_id = 1, rc_table_name = ''user_details'',
                  rc_column_name = ''age'', rc_operator = ''>'',
                  rc_value_text = None, rc_value_numeric = Some (IntV 18)\<rparr>),
           (\<lparr>r_rule_id = 1, r_target_value = 5\<rparr>,
            Some \<lparr>rc_condition_id = 11, rc_rule_id = 1, rc_table_name = ''staff'',
                  rc_column_name = ''genre'', rc_operator = ''=='',
                  rc_value_text = Some ''x'', rc_value_numeric = None\<rparr>),
           (\<lparr>r_rule_id = 1, r_target_value = 5\<rparr>,
            Some \<lparr>rc_condition_id = 12, rc_rule_id = 1, rc_table_name = ''user_details'',
                  rc_column_name = '''', rc_operator = ''<'',
                  rc_value_text = None, rc_value_numeric = Some (IntV 3)\<rparr>)]"
    by (simp add: codec_defs)
  have fetched: "get_rules_by_target_value_paginated (Some ?conn) 5 0 500 = Inr [?x]"
    by (simp add: codec_defs)
  have x: "?x \<in> set [?x]" by simp
  show ?thesis
    using decoded_blocks [OF page fetched x] by simp
qed

text \<open>
  C10 as stated fails: the only fetched row has a non-null (empty) \<open>column_name\<close> and
  \<open>table_name = user_details\<close>, and the rule built from it has no user condition.
\<close>

theorem decoded_blocks_counterexample:
  "execute_select
     \<lparr>store = \<lparr>rules = [\<lparr>r_rule_id = 1 :: nat, r_target_value = 5\<rparr>],
               rule_conditions =
                 [\<lparr>rc_condition_id = 12, rc_rule_id = 1, rc_table_name = ''user_details'',
                   rc_column_name = '''', rc_operator = ''<'',
                   rc_value_text = None, rc_value_numeric = Some (IntV 3)\<rparr>]\<rparr>,
      connect_fault = None, execute_fault = None, commit_fault = None\<rparr> 5 0 500
     = Inr [(\<lparr>r_rule_id = 1, r_target_value = 5\<rparr>,
             Some \<lparr>rc_condition_id = 12, rc_rule_id = 1, rc_table_name = ''user_details'',
                   rc_column_name = '''', rc_operator = ''<'',
                   rc_value_text = None, rc_value_numeric = Some (IntV 3)\<rparr>)]
   \<and> row_column_name
        (\<lparr>r_rule_id = 1 :: nat, r_target_value = 5\<rparr>,
         Some \<lparr>rc_condition_id = 12 :: nat, rc_rule_id = 1, rc_table_name = ''user_details'',
               rc_column_name = '''', rc_operator = ''<'',
               rc_value_text = None, rc_value_numeric = Some (IntV 3)\<rparr>) \<noteq> None
   \<and> get_rules_by_target_value_paginated
        (Some \<lparr>store = \<lparr>rules = [\<lparr>r_rule_id = 1 :: nat, r_target_value = 5\<rparr>],
                     rule_conditions =
                       [\<lparr>rc_condition_id = 12, rc_rule_id = 1, rc_table_name = ''user_details'',
                         rc_column_name = '''', rc_operator = ''<'',
                         rc_value_text = None, rc_value_numeric = Some (IntV 3)\<rparr>]\<rparr>,
            connect_fault = None, execute_fault = None, commit_fault = None\<rparr>) 5 0 500
     = Inr [\<lparr>rule_id = 1, rule_obj = \<lparr>columns = [], conditions = ([], []), target = 5\<rparr>\<rparr>]"
  by (simp add: codec_defs)

section \<open>Bulk load\<close>

text \<open>
  C6: the conflict key is a function of the table name alone: \<open>user_score\<close> has
  \<open>user_id, anime_id\<close>, \<open>anime_dataset\<close> has \<open>anime_id\<close>, \<open>user_details\<close> has \<open>mal_id\<close>,
  any other table has none. A bulk load of a buffer with at least one row executes one
  statement on the cleaned rows and returns what that gives: without a key a plain insert,
  whatever the policy; with a key, under \<open>DO UPDATE\<close> the insert with
  \<open>ON CONFLICT (key) DO UPDATE SET c = EXCLUDED.c\<close> for exactly the columns \<open>c\<close> of the
  buffer outside the key, and under \<open>DO NOTHING\<close> the insert with
  \<open>ON CONFLICT (key) DO NOTHING\<close>.
\<close>

theorem conflict_clause_by_table:
  "get_conflict_columns ''user_score'' = [''user_id'', ''anime_id'']
   \<and> get_conflict_columns ''anime_dataset'' = [''anime_id'']
   \<and> get_conflict_columns ''user_details'' = [''mal_id'']
   \<and> (table \<notin> {''user_score'', ''anime_dataset'', ''user_details''} \<longrightarrow>
        get_conflict_columns table = [])
   \<and> (reader \<noteq> [] \<and> get_conflict_columns table = [] \<longrightarrow>
        copy_from_buffer execute literal_eval cols reader table conflict_action
          = (case execute
                    (nl 16 @ ''INSERT INTO '' @ table @ '' ('' @ join '', '' cols @ '')''
                     @ nl 16 @ ''VALUES ('' @ join '', '' (map (\<lambda>col. '':'' @ col) cols) @ '')''
                     @ nl 12)
                    (map (clean_row literal_eval) reader) of
               Some e \<Rightarrow> Inl e
             | None \<Rightarrow> Inr True))
   \<and> (reader \<noteq> [] \<and> get_conflict_columns table \<noteq> [] \<longrightarrow>
        copy_from_buffer execute literal_eval cols reader table ''DO UPDATE''
          = (case execute
                    (nl 20 @ ''INSERT INTO '' @ table @ '' ('' @ join '', '' cols @ '')''
                     @ nl 20 @ ''VALUES ('' @ join '', '' (map (\<lambda>col. '':'' @ col) cols) @ '')''
                     @ nl 20 @ ''ON CONFLICT ('' @ join '', '' (get_conflict_columns table) @ '')''
                     @ '' DO UPDATE SET ''
                     @ join '', '' (map (\<lambda>col. col @ '' = EXCLUDED.'' @ col)
                                      (filter (\<lambda>col. col \<notin> set (get_conflict_columns table)) cols))
                     @ nl 16)
                    (map (clean_row literal_eval) reader) of
               Some e \<Rightarrow> Inl e
             | None \<Rightarrow> Inr True)
        \<and> copy_from_buffer execute literal_eval cols reader table ''DO NOTHING''
          = (case execute
                    (nl 20 @ ''INSERT INTO '' @ table @ '' ('' @ join '', '' cols @ '')''
                     @ nl 20 @ ''VALUES ('' @ join '', '' (map (\<lambda>col. '':'' @ col) cols) @ '')''
                     @ nl 20 @ ''ON CONFLICT ('' @ join '', '' (get_conflict_columns table) @ '')''
                     @ '' DO NOTHING''
                     @ nl 16)
                    (map (clean_row literal_eval) reader) of
               Some e \<Rightarrow> Inl e
             | None \<Rightarrow> Inr True))"
proof -
  have keys: "get_conflict_columns ''user_score'' = [''user_id'', ''anime_id'']"
    "get_conflict_columns ''anime_dataset'' = [''anime_id'']"
    "get_conflict_columns ''user_details'' = [''mal_id'']"
    "table \<notin> {''user_score'', ''anime_dataset'', ''user_details''} \<longrightarrow>
       get_conflict_columns table = []"
    by (simp_all add: get_conflict_columns_def)
  have plain: "reader \<noteq> [] \<and> get_conflict_columns table = [] \<longrightarrow>
        copy_from_buffer execute literal_eval cols reader table conflict_action
          = (case execute
                    (nl 16 @ ''INSERT INTO '' @ table @ '' ('' @ join '', '' cols @ '')''
                     @ nl 16 @ ''VALUES ('' @ join '', '' (map (\<lambda>col. '':'' @ col) cols) @ '')''
                     @ nl 12)
                    (map (clean_row literal_eval) reader) of
               Some e \<Rightarrow> Inl e
             | None \<Rightarrow> Inr True)"
    by (simp add: copy_from_buffer_nonempty construct_sql_def)
  have keyed: "reader \<noteq> [] \<and> get_conflict_columns table \<noteq> [] \<longrightarrow>
        copy_from_buffer execute literal_eval cols reader table ''DO UPDATE''
          = (case execute
                    (nl 20 @ ''INSERT INTO '' @ table @ '' ('' @ join '', '' cols @ '')''
                     @ nl 20 @ ''VALUES ('' @ join '', '' (map (\<lambda>col. '':'' @ col) cols) @ '')''
                     @ nl 20 @ ''ON CONFLICT ('' @ join '', '' (get_conflict_columns table) @ '')''
                     @ '' DO UPDATE SET ''
                     @ join '', '' (map (\<lambda>col. col @ '' = EXCLUDED.'' @ col)
                                      (filter (\<lambda>col. col \<notin> set (get_conflict_columns table)) cols))
                     @ nl 16)
                    (map (clean_row literal_eval) reader) of
               Some e \<Rightarrow> Inl e
             | None \<Rightarrow> Inr True)
        \<and> copy_from_buffer execute literal_eval cols reader table ''DO NOTHING''
          = (case execute
                    (nl 20 @ ''INSERT INTO '' @ table @ '' ('' @ join '', '' cols @ '')''
                     @ nl 20 @ ''VALUES ('' @ join '', '' (map (\<lambda>col. '':'' @ col) cols) @ '')''
                     @ nl 20 @ ''ON CONFLICT ('' @ join '', '' (get_conflict_columns table) @ '')''
                     @ '' DO NOTHING''
                     @ nl 16)
                    (map (clean_row literal_eval) reader) of
               Some e \<Rightarrow> Inl e
             | None \<Rightarrow> Inr True)"
    by (simp add: copy_from_buffer_nonempty construct_sql_def Let_def)
  from keys plain keyed show ?thesis by blast
qed

text \<open>
  Instances: three loads whose \<open>execute\<close> accepts one statement text only and raises on
  any other.
\<close>

theorem conflict_clause_by_table_witness:
  "copy_from_buffer
     (\<lambda>sql rows. if sql = nl 20 @ ''INSERT INTO anime_dataset (anime_id, name, score)''
                          @ nl 20 @ ''VALUES (:anime_id, :name, :score)''
                          @ nl 20 @ ''ON CONFLICT (anime_id) DO UPDATE SET name = EXCLUDED.name, score = EXCLUDED.score''
                          @ nl 16
                  then None else Some (PyException ''another statement''))
     (\<lambda>s. Inl (PyException ''SyntaxError''))
     [''anime_id'', ''name'', ''score'']
     [[''anime_id'' \<mapsto> Some ''1'', ''name'' \<mapsto> Some ''Foo'', ''score'' \<mapsto> Some ''7'']]
     ''anime_dataset'' ''DO UPDATE'' = Inr True
   \<and> copy_from_buffer
     (\<lambda>sql rows. if sql = nl 20 @ ''INSERT INTO user_score (user_id, anime_id, rating)''
                          @ nl 20 @ ''VALUES (:user_id, :anime_id, :rating)''
                          @ nl 20 @ ''ON CONFLICT (user_id, anime_id) DO NOTHING''
                          @ nl 16
                  then None else Some (PyException ''another statement''))
     (\<lambda>s. Inl (PyException ''SyntaxError''))
     [''user_id'', ''anime_id'', ''rating'']
     [[''user_id'' \<mapsto> Some ''3'', ''anime_id'' \<mapsto> Some ''1'', ''rating'' \<mapsto> Some ''9'']]
     ''user_score'' ''DO NOTHING'' = Inr True
   \<and> copy_from_buffer
     (\<lambda>sql rows. if sql = nl 16 @ ''INSERT INTO rules (rule_id, target_value)''
                          @ nl 16 @ ''VALUES (:rule_id, :target_value)''
                          @ nl 12
                  then None else Some (PyException ''another statement''))
     (\<lambda>s. Inl (PyException ''SyntaxError''))
     [''rule_id'', ''target_value'']
     [[''rule_id'' \<mapsto> Some ''r1'', ''target_value'' \<mapsto> Some ''5'']]
     ''rules'' ''DO UPDATE'' = Inr True"
proof -
  let ?le = "\<lambda>s :: string. Inl (PyException ''SyntaxError'') :: exn + py_literal"
  let ?x1 = "\<lambda>(sql :: string) (rows :: csv_row list).
      if sql = nl 20 @ ''INSERT INTO anime_dataset (anime_id, name, score)''
                          @ nl 20 @ ''VALUES (:anime_id, :name, :score)''
                          @ nl 20 @ ''ON CONFLICT (anime_id) DO UPDATE SET name = EXCLUDED.name, score = EXCLUDED.score''
                          @ nl 16
                  then None else Some (PyException ''another statement'')"
  let ?x2 = "\<lambda>(sql :: string) (rows :: csv_row list).
      if sql = nl 20 @ ''INSERT INTO user_score (user_id, anime_id, rating)''
                          @ nl 20 @ ''VALUES (:user_id, :anime_id, :rating)''
                          @ nl 20 @ ''ON CONFLICT (user_id, anime_id) DO NOTHING''
                          @ nl 16
                  then None else Some (PyException ''another statement'')"
  let ?x3 = "\<lambda>(sql :: string) (rows :: csv_row list).
      if sql = nl 16 @ ''INSERT INTO rules (rule_id, target_value)''
                          @ nl 16 @ ''VALUES (:rule_id, :target_value)''
                          @ nl 12
                  then None else Some (PyException ''another statement'')"
  let ?r1 = "[[''anime_id'' \<mapsto> Some ''1'', ''name'' \<mapsto> Some ''Foo'', ''score'' \<mapsto> Some ''7'']] :: csv_row list"
  let ?r2 = "[[''user_id'' \<mapsto> Some ''3'', ''anime_id'' \<mapsto> Some ''1'', ''rating'' \<mapsto> Some ''9'']] :: csv_row list"
  let ?r3 = "[[''rule_id'' \<mapsto> Some ''r1'', ''target_value'' \<mapsto> Some ''5'']] :: csv_row list"
  have k1: "?r1 \<noteq> [] \<and> get_conflict_columns ''anime_dataset'' \<noteq> []"
    and k2: "?r2 \<noteq> [] \<and> get_conflict_columns ''user_score'' \<noteq> []"
    and k3: "?r3 \<noteq> [] \<and> get_conflict_columns ''rules'' = []"
    by (simp_all add: get_conflict_columns_def)
  note keyed = conjunct2 [THEN conjunct2, THEN conjunct2, THEN conjunct2, THEN conjunct2, THEN mp]
  note plain = conjunct2 [THEN conjunct2, THEN conjunct2, THEN conjunct2, THEN conjunct1, THEN mp]
  note e1 = conflict_clause_by_table
      [of "''anime_dataset''" ?r1 ?x1 ?le "[''anime_id'', ''name'', ''score'']" "''DO UPDATE''",
        THEN keyed, OF k1, THEN conjunct1]
  note e2 = conflict_clause_by_table
      [of "''user_score''" ?r2 ?x2 ?le "[''user_id'', ''anime_id'', ''rating'']" "''DO UPDATE''",
        THEN keyed, OF k2, THEN conjunct2]
  note e3 = conflict_clause_by_table
      [of "''rules''" ?r3 ?x3 ?le "[''rule_id'', ''target_value'']" "''DO UPDATE''",
        THEN plain, OF k3]
  show ?thesis
    by (simp only: e1 e2 e3) (simp add: get_conflict_columns_def)
qed



section \<open>Engine construction and faults\<close>

text \<open>
  C8 (as amended): when a required connection parameter is absent or empty, the
  construction of the manager raises nothing: it completes, initialized, with no engine;
  the failure comes at the first connection, as \<open>DatabaseError("Connection failed")\<close>
  caused by \<open>DatabaseError("Database engine not initialized")\<close>.
\<close>

theorem incomplete_config_no_engine:
  assumes "\<not> complete_config cfg"
  shows "\<exists>m. DatabaseManager_init create_engine cfg = Inr m
           \<and> m = \<lparr>config = cfg, sa_engine = None, initialized = True\<rparr>
           \<and> connection (sa_engine m) body
               = Inl (DatabaseError ''Connection failed''
                        (Some (DatabaseError ''Database engine not initialized'' None)))"
proof -
  have "DatabaseManager_init create_engine cfg
          = Inr \<lparr>config = cfg, sa_engine = None, initialized = True\<rparr>"
    using assms
    by (auto simp: DatabaseManager_init_def init_sqlalchemy_engine_def complete_config_def
        split: option.splits)
  then show ?thesis
    by (simp add: connection_def connection_failed_def)
qed

text \<open>An instance: the password is empty.\<close>

theorem incomplete_config_no_engine_witness:
  "\<not> complete_config (Some \<lparr>host = ''postgres'', port = 5432, database = ''mydatabase'',
                              user = ''postgres'', password = ''''\<rparr>)
   \<and> (\<exists>m. DatabaseManager_init (Inl \<circ> OperationalError)
              (Some \<lparr>host = ''postgres'', port = 5432, database = ''mydatabase'',
                     user = ''postgres'', password = ''''\<rparr>) = Inr m
          \<and> m = \<lparr>config = Some \<lparr>host = ''postgres'', port = 5432, database = ''mydatabase'',
                                  user = ''postgres'', password = ''''\<rparr>,
                 sa_engine = None, initialized = True\<rparr>
          \<and> connection (sa_engine m) (\<lambda>conn :: nat engine. Inr (rules (store conn)))
              = Inl (DatabaseError ''Connection failed''
                       (Some (DatabaseError ''Database engine not initialized'' None))))"
proof -
  have inc: "\<not> complete_config (Some \<lparr>host = ''postgres'', port = 5432,
      database = ''mydatabase'', user = ''postgres'', password = ''''\<rparr>)"
    by (simp add: complete_config_def)
  show ?thesis
    using inc incomplete_config_no_engine [OF inc] by blast
qed

text \<open>
  C8 as stated fails: with an empty password the construction returns a manager without
  an engine instead of raising.
\<close>

theorem engine_construction_counterexample:
  "DatabaseManager_init (Inl \<circ> OperationalError)
        (Some \<lparr>host = ''postgres'', port = 5432, database = ''mydatabase'',
               user = ''postgres'', password = ''''\<rparr>)
     = (Inr \<lparr>config = Some \<lparr>host = ''postgres'', port = 5432, database = ''mydatabase'',
                              user = ''postgres'', password = ''''\<rparr>,
             sa_engine = None, initialized = True\<rparr> :: exn + nat engine DatabaseManager)"
  by (simp add: DatabaseManager_init_def init_sqlalchemy_engine_def)

text \<open>
  C9 (as amended): whatever leaves a unit of work run under \<open>connection\<close> as an exception
  is \<open>DatabaseError("Connection failed")\<close> with the original fault as its cause, be it a
  fault of connecting, of the body or of the commit; so a fault of a query of
  \<open>save_rules\<close> reaches the caller in that form. In the fetch by target a fault of the
  query is caught: when the store rejected the statement the caller gets the empty list;
  when the connection was lost the commit that follows raises, and the caller gets
  \<open>DatabaseError("Connection failed")\<close> caused by the commit's \<open>PendingRollbackError\<close>,
  not by the original fault.
\<close>

theorem faults_wrapped_fetch_swallows:
  "(\<forall>err. connection engine body = Inl err \<longrightarrow>
       (\<exists>cause. err = DatabaseError ''Connection failed'' (Some cause)))
   \<and> (connect_fault eng = Some e \<longrightarrow>
        connection (Some eng) body = Inl (DatabaseError ''Connection failed'' (Some e)))
   \<and> (connect_fault eng = None \<and> body eng = Inl e \<longrightarrow>
        connection (Some eng) body = Inl (DatabaseError ''Connection failed'' (Some e)))
   \<and> (connect_fault eng = None \<and> body eng = Inr res \<and> commit_fault eng = Some e \<longrightarrow>
        connection (Some eng) body = Inl (DatabaseError ''Connection failed'' (Some e)))
   \<and> (connect_fault eng = None \<and> execute_fault eng = Some e \<and> rs \<noteq> [] \<longrightarrow>
        save_rules (Some eng) uuid4 rs = Inl (DatabaseError ''Connection failed'' (Some e)))
   \<and> (connect_fault eng = None \<and> execute_fault eng = None \<and> commit_fault eng = None
        \<and> execute_select eng tv offset limit = Inl e \<longrightarrow>
        get_rules_by_target_value_paginated (Some eng) tv offset limit = Inr [])
   \<and> (connect_fault eng = None \<and> execute_fault eng = Some e \<longrightarrow>
        get_rules_by_target_value_paginated (Some eng) tv offset limit
          = Inl (DatabaseError ''Connection failed'' (Some pending_rollback)))"
proof -
  have a: "\<forall>err. connection engine body = Inl err \<longrightarrow>
       (\<exists>cause. err = DatabaseError ''Connection failed'' (Some cause))"
    by (auto simp: connection_def connection_failed_def split: option.splits sum.splits)
  have b0: "connect_fault eng = Some e \<longrightarrow>
        connection (Some eng) body = Inl (DatabaseError ''Connection failed'' (Some e))"
    by (simp add: connection_def connection_failed_def)
  have b: "connect_fault eng = None \<and> body eng = Inl e \<longrightarrow>
        connection (Some eng) body = Inl (DatabaseError ''Connection failed'' (Some e))"
    by (simp add: connection_def connection_failed_def)
  have b1: "connect_fault eng = None \<and> body eng = Inr res \<and> commit_fault eng = Some e \<longrightarrow>
        connection (Some eng) body = Inl (DatabaseError ''Connection failed'' (Some e))"
    by (simp add: connection_def connection_failed_def)
  have c: "connect_fault eng = None \<and> execute_fault eng = Some e \<and> rs \<noteq> [] \<longrightarrow>
        save_rules (Some eng) uuid4 rs = Inl (DatabaseError ''Connection failed'' (Some e))"
  proof (intro impI, elim conjE)
    assume h: "connect_fault eng = None" "execute_fault eng = Some e" "rs \<noteq> []"
    obtain rd cd where E: "encode_rules uuid4 0 rs = (rd, cd)"
      by (cases "encode_rules uuid4 0 rs")
    have "length rd = length rs"
      using length_encode_rules [of uuid4 0 rs] E by simp
    with h(3) have "rd \<noteq> []" by auto
    then show "save_rules (Some eng) uuid4 rs = Inl (DatabaseError ''Connection failed'' (Some e))"
      using h by (simp add: save_rules_def connection_def connection_failed_def E insert_rules_def)
  qed
  have d: "connect_fault eng = None \<and> execute_fault eng = None \<and> commit_fault eng = None
        \<and> execute_select eng tv offset limit = Inl e \<longrightarrow>
        get_rules_by_target_value_paginated (Some eng) tv offset limit = Inr []"
    by (simp add: get_rules_by_target_value_paginated_def connection_txn_def
        txn_after_failure_def)
  have f: "connect_fault eng = None \<and> execute_fault eng = Some e \<longrightarrow>
        get_rules_by_target_value_paginated (Some eng) tv offset limit
          = Inl (DatabaseError ''Connection failed'' (Some pending_rollback))"
    by (simp add: get_rules_by_target_value_paginated_def connection_txn_def
        txn_after_failure_def execute_select_def connection_failed_def)
  from a b0 b b1 c d f show ?thesis by blast
qed

text \<open>
  Instances: a save on a lost connection, a fetch with \<open>limit = -1\<close> on a sound one, and
  a fetch on a lost connection.
\<close>

theorem faults_wrapped_fetch_swallows_witness:
  "save_rules
     (Some \<lparr>store = \<lparr>rules = [], rule_conditions = []\<rparr>, connect_fault = None,
            execute_fault = Some (OperationalError ''server closed the connection unexpectedly''),
            commit_fault = None\<rparr>)
     ((+) (100 :: nat))
     [\<lparr>columns = [], conditions = ([(''age'', (''>'', IntV 18))], []), target = 5\<rparr>]
     = Inl (DatabaseError ''Connection failed''
              (Some (OperationalError ''server closed the connection unexpectedly'')))
   \<and> get_rules_by_target_value_paginated
        (Some \<lparr>store = \<lparr>rules = [\<lparr>r_rule_id = 1 :: nat, r_target_value = 5\<rparr>], rule_conditions = []\<rparr>,
               connect_fault = None, execute_fault = None, commit_fault = None\<rparr>) 5 0 (- 1)
     = Inr []
   \<and> get_rules_by_target_value_paginated
        (Some \<lparr>store = \<lparr>rules = [\<lparr>r_rule_id = 1 :: nat, r_target_value = 5\<rparr>], rule_conditions = []\<rparr>,
               connect_fault = None,
               execute_fault = Some (OperationalError ''server closed the connection unexpectedly''),
               commit_fault = None\<rparr>) 5 0 500
     = Inl (DatabaseError ''Connection failed'' (Some pending_rollback))"
proof -
  let ?e = "OperationalError ''server closed the connection unexpectedly''"
  let ?d = "DataError ''LIMIT must not be negative''"
  let ?eng0 = "\<lparr>store = \<lparr>rules = [] :: nat rule_row list, rule_conditions = []\<rparr>,
                connect_fault = None, execute_fault = Some ?e, commit_fault = None\<rparr>"
  let ?eng1 = "\<lparr>store = \<lparr>rules = [\<lparr>r_rule_id = 1 :: nat, r_target_value = 5\<rparr>], rule_conditions = []\<rparr>,
                connect_fault = None, execute_fault = None, commit_fault = None\<rparr>"
  let ?eng2 = "\<lparr>store = \<lparr>rules = [\<lparr>r_rule_id = 1 :: nat, r_target_value = 5\<rparr>], rule_conditions = []\<rparr>,
                connect_fault = None, execute_fault = Some ?e, commit_fault = None\<rparr>"
  let ?r = "\<lparr>columns = [], conditions = ([(''age'', (''>'', IntV 18))], []), target = 5\<rparr>"
  have sel: "execute_select ?eng1 5 0 (- 1) = Inl ?d" by (simp add: execute_select_def)
  note T0 = faults_wrapped_fetch_swallows
    [of "Some ?eng0" "\<lambda>_. Inr ()" ?eng0 ?e "()" "[?r]" "(+) 100" 5 0 500]
  note T1 = faults_wrapped_fetch_swallows
    [of "Some ?eng1" "\<lambda>_. Inr ()" ?eng1 ?d "()" "[?r]" "(+) 100" 5 0 "- 1"]
  note T2 = faults_wrapped_fetch_swallows
    [of "Some ?eng2" "\<lambda>_. Inr ()" ?eng2 ?e "()" "[?r]" "(+) 100" 5 0 500]
  have "save_rules (Some ?eng0) ((+) 100) [?r] = Inl (DatabaseError ''Connection failed'' (Some ?e))"
    using T0 by simp
  moreover have "get_rules_by_target_value_paginated (Some ?eng1) 5 0 (- 1) = Inr []"
    using T1 sel by simp
  moreover have "get_rules_by_target_value_paginated (Some ?eng2) 5 0 500
      = Inl (DatabaseError ''Connection failed'' (Some pending_rollback))"
    using T2 by simp
  ultimately show ?thesis by simp
qed

text \<open>
  C9 as stated fails: the store rejects the query for its negative limit and the caller
  gets the empty list, a normal result.
\<close>

theorem fetch_fault_counterexample:
  "execute_select
     \<lparr>store = \<lparr>rules = [\<lparr>r_rule_id = 1 :: nat, r_target_value = 5\<rparr>], rule_conditions = []\<rparr>,
      connect_fault = None, execute_fault = None, commit_fault = None\<rparr> 5 0 (- 1)
     = Inl (DataError ''LIMIT must not be negative'')
   \<and> get_rules_by_target_value_paginated
        (Some \<lparr>store = \<lparr>rules = [\<lparr>r_rule_id = 1 :: nat, r_target_value = 5\<rparr>], rule_conditions = []\<rparr>,
               connect_fault = None, execute_fault = None, commit_fault = None\<rparr>) 5 0 (- 1)
     = Inr []"
  by (simp add: get_rules_by_target_value_paginated_def connection_txn_def execute_select_def
      txn_after_failure_def)

end
